theory Spec2Isabelle
  imports Main
begin

section \<open>Data model\<close>

text \<open>
  The builder of \<^verbatim>\<open>cf-definitions-builder.ts\<close> keeps one in-memory project of source
  files and fills it from content-type descriptors. A descriptor is the type
  \<^verbatim>\<open>CFContentType\<close>; its fields are Contentful's \<^verbatim>\<open>Field\<close>, of which the builder itself
  reads \<^verbatim>\<open>id\<close>, \<^verbatim>\<open>required\<close> and \<^verbatim>\<open>omitted\<close>. The rest of a field (its type, and link type,
  items and validations) is only read by the external renderers; beyond the type it
  stays in the extension part of the record.
\<close>

record Field =
  field_id :: string
  field_type :: string
  required :: bool
  omitted :: bool

record Sys =
  sys_id :: string
  sys_type :: string

record 'x CFContentType =
  ct_name :: string
  ct_id :: string
  sys :: Sys
  ct_fields :: "'x Field_scheme list"

text \<open>
  The structures the builder hands to the project: import and export declarations,
  interfaces with their property signatures, and type aliases.
\<close>

record ImportDeclarationStructure =
  moduleSpecifier :: string
  namedImports :: "string list"
  namespaceImport :: "string option"
  defaultImport :: "string option"
  isTypeOnly :: bool

record ExportDeclarationStructure =
  exportSpecifier :: "string option"
  namedExports :: "string list"
  exportTypeOnly :: bool

record PropertySignatureStructure =
  prop_name :: string
  hasQuestionToken :: bool
  prop_type :: string

record InterfaceDeclarationStructure =
  iface_name :: string
  iface_exported :: bool
  properties :: "PropertySignatureStructure list"

record TypeAliasDeclarationStructure =
  alias_name :: string
  alias_exported :: bool
  alias_type :: string

text \<open>
  A top-level statement of a source file, as the structure \<^verbatim>\<open>getStructure()\<close> gives for
  it, tagged with its kind. The builder creates exactly these five kinds. The text that
  \<^verbatim>\<open>addEntryTypeAlias\<close> hands to \<^verbatim>\<open>addStatements\<close>, \<^verbatim>\<open>export const ... = '...';\<close>, becomes a
  variable statement of the file; \<open>VariableStatement\<close> carries that text.
\<close>

datatype statement =
    ImportDeclaration ImportDeclarationStructure
  | ExportDeclaration ExportDeclarationStructure
  | Interface InterfaceDeclarationStructure
  | TypeAlias TypeAliasDeclarationStructure
  | VariableStatement string

text \<open>\<^verbatim>\<open>StructureKind[childStructure.kind]\<close>, the name used in the error message.\<close>

fun kindName :: "statement \<Rightarrow> string" where
  "kindName (ImportDeclaration _) = ''ImportDeclaration''"
| "kindName (ExportDeclaration _) = ''ExportDeclaration''"
| "kindName (Interface _) = ''Interface''"
| "kindName (TypeAlias _) = ''TypeAlias''"
| "kindName (VariableStatement _) = ''VariableStatement''"

text \<open>
  A source file is created as \<^verbatim>\<open>`${name}.ts`\<close> in the root of the in-memory file system;
  \<open>baseName\<close> is what \<^verbatim>\<open>getBaseNameWithoutExtension()\<close> returns for it, the name given
  to \<^verbatim>\<open>addFile\<close> (names are plain identifiers without path separators).
\<close>

record SourceFile =
  baseName :: string
  statements :: "statement list"

text \<open>
  The project of the builder is the library's registry of source files, keyed by file
  path. It is the list of its files in the order \<^verbatim>\<open>getSourceFiles()\<close> enumerates them.
\<close>

type_synonym Project = "SourceFile list"

text \<open>
  The two errors the builder throws: \<^verbatim>\<open>'given data is not describing a ContentType'\<close>
  (the spec's InvalidDescriptorError) and \<^verbatim>\<open>`Unhandled node type '${kind}'.`\<close>
  (the spec's UnsupportedDeclarationKindError), which carries the kind's name.
\<close>

datatype error =
    InvalidDescriptorError
  | UnsupportedDeclarationKindError string

text \<open>
  The collaborators imported from other modules (\<^verbatim>\<open>./utils\<close>, \<^verbatim>\<open>./renderer/*\<close>,
  \<^verbatim>\<open>./cf-property-imports\<close>, \<^verbatim>\<open>path\<close>) are parameters of the model, and so are three
  decisions of the library that the source does not show:
  \<^item> \<open>organize ds others\<close> is the import list that \<^verbatim>\<open>organizeImports\<close> leaves in a file
    whose imports are \<open>ds\<close> and whose other statements are \<open>others\<close>;
  \<^item> \<open>exportBefore a b\<close> says that \<^verbatim>\<open>organizeImports\<close>, which also sorts the export
    declarations of a file, puts \<open>a\<close> before \<open>b\<close>;
  \<^item> \<open>enumerationIndex name names\<close> is the place at which the enumeration of the project
    shows a file created under the new name \<open>name\<close>, the files already registered being
    \<open>names\<close> in enumeration order (the library enumerates the files of a directory
    sorted by file name: there it is the number of registered names that come before
    the new one).
\<close>

record 'x Helpers =
  moduleName :: "string \<Rightarrow> string"
  moduleFieldsName :: "string \<Rightarrow> string"
  moduleTypeIdName :: "string \<Rightarrow> string"
  renderProp :: "'x Field_scheme \<Rightarrow> string"
  propertyImports :: "'x Field_scheme \<Rightarrow> string \<Rightarrow> ImportDeclarationStructure list"
  renderUnionType :: "string list \<Rightarrow> string"
  renderGenericType :: "string \<Rightarrow> string \<Rightarrow> string"
  organize :: "ImportDeclarationStructure list \<Rightarrow> statement list \<Rightarrow> ImportDeclarationStructure list"
  exportBefore :: "ExportDeclarationStructure \<Rightarrow> ExportDeclarationStructure \<Rightarrow> bool"
  enumerationIndex :: "string \<Rightarrow> string list \<Rightarrow> nat"
  resolve :: "string \<Rightarrow> string \<Rightarrow> string"

section \<open>The project and its source files\<close>

definition getSourceFiles :: "Project \<Rightarrow> SourceFile list" where
  "getSourceFiles p = p"

definition getSourceFile :: "(SourceFile \<Rightarrow> bool) \<Rightarrow> Project \<Rightarrow> SourceFile option" where
  "getSourceFile pred p = find pred (getSourceFiles p)"

text \<open>
  \<open>putSourceFile env f p\<close> makes \<open>f\<close> the project's file of that name: in the place of the
  old file when the name is registered, at the place the enumeration gives a new name
  otherwise (a place beyond the last file is the end). It serves both for
  \<^verbatim>\<open>createSourceFile\<close> with \<^verbatim>\<open>overwrite: true\<close> and for writing back a file object the
  builder has mutated (the object is shared with the project).
\<close>

definition putSourceFile :: "'x Helpers \<Rightarrow> SourceFile \<Rightarrow> Project \<Rightarrow> Project" where
  "putSourceFile env f p =
     (if list_ex (\<lambda>g. baseName g = baseName f) p
      then map (\<lambda>g. if baseName g = baseName f then f else g) p
      else let k = enumerationIndex env (baseName f) (map baseName p)
           in take k p @ [f] @ drop k p)"

definition createSourceFile :: "'x Helpers \<Rightarrow> Project \<Rightarrow> string \<Rightarrow> SourceFile \<times> Project" where
  "createSourceFile env p name =
     (let f = \<lparr>baseName = name, statements = []\<rparr> in (f, putSourceFile env f p))"

text \<open>The project drops a file by its path, so by its name.\<close>

definition removeSourceFile :: "SourceFile \<Rightarrow> Project \<Rightarrow> Project" where
  "removeSourceFile f p = filter (\<lambda>g. baseName g \<noteq> baseName f) p"

definition getFilePath :: "SourceFile \<Rightarrow> string" where
  "getFilePath f = ''/'' @ baseName f @ ''.ts''"

fun isImport :: "statement \<Rightarrow> bool" where
  "isImport (ImportDeclaration _) = True"
| "isImport _ = False"

text \<open>
  \<^verbatim>\<open>addImportDeclaration\<close> inserts after the last import declaration of the file, or at
  the top when there is none; the other \<^verbatim>\<open>add...\<close> operations append at the end.
\<close>

fun insertImport :: "ImportDeclarationStructure \<Rightarrow> statement list \<Rightarrow> statement list" where
  "insertImport d [] = [ImportDeclaration d]"
| "insertImport d (s # ss) =
     (if list_ex isImport (s # ss) then s # insertImport d ss
      else ImportDeclaration d # s # ss)"

definition addImportDeclaration :: "ImportDeclarationStructure \<Rightarrow> SourceFile \<Rightarrow> SourceFile" where
  "addImportDeclaration d f = f\<lparr>statements := insertImport d (statements f)\<rparr>"

definition addImportDeclarations :: "ImportDeclarationStructure list \<Rightarrow> SourceFile \<Rightarrow> SourceFile" where
  "addImportDeclarations ds f = fold addImportDeclaration ds f"

definition addExportDeclaration :: "ExportDeclarationStructure \<Rightarrow> SourceFile \<Rightarrow> SourceFile" where
  "addExportDeclaration e f = f\<lparr>statements := statements f @ [ExportDeclaration e]\<rparr>"

definition addInterface :: "InterfaceDeclarationStructure \<Rightarrow> SourceFile \<Rightarrow> SourceFile" where
  "addInterface i f = f\<lparr>statements := statements f @ [Interface i]\<rparr>"

definition addTypeAlias :: "TypeAliasDeclarationStructure \<Rightarrow> SourceFile \<Rightarrow> SourceFile" where
  "addTypeAlias t f = f\<lparr>statements := statements f @ [TypeAlias t]\<rparr>"

definition addStatements :: "string list \<Rightarrow> SourceFile \<Rightarrow> SourceFile" where
  "addStatements texts f = f\<lparr>statements := statements f @ map VariableStatement texts\<rparr>"

text \<open>
  \<^verbatim>\<open>declaration.addProperty\<close>: the interface declaration is a node of its file, named
  here by the interface's name.
\<close>

fun addPropertyTo :: "string \<Rightarrow> PropertySignatureStructure \<Rightarrow> statement \<Rightarrow> statement" where
  "addPropertyTo n pr (Interface i) =
     (if iface_name i = n then Interface (i\<lparr>properties := properties i @ [pr]\<rparr>)
      else Interface i)"
| "addPropertyTo n pr s = s"

definition addPropertySignature :: "string \<Rightarrow> PropertySignatureStructure \<Rightarrow> SourceFile \<Rightarrow> SourceFile" where
  "addPropertySignature n pr f = f\<lparr>statements := map (addPropertyTo n pr) (statements f)\<rparr>"

fun importsOf :: "statement list \<Rightarrow> ImportDeclarationStructure list" where
  "importsOf [] = []"
| "importsOf (ImportDeclaration d # ss) = d # importsOf ss"
| "importsOf (s # ss) = importsOf ss"

definition othersOf :: "statement list \<Rightarrow> statement list" where
  "othersOf ss = filter (\<lambda>s. \<not> isImport s) ss"

fun getExportDeclarations :: "statement list \<Rightarrow> ExportDeclarationStructure list" where
  "getExportDeclarations [] = []"
| "getExportDeclarations (ExportDeclaration e # ss) = e # getExportDeclarations ss"
| "getExportDeclarations (s # ss) = getExportDeclarations ss"

text \<open>
  A stable sort by insertion, for an order given as a relation; whatever the relation,
  the result is a rearrangement of the list.
\<close>

fun insertBy :: "('a \<Rightarrow> 'a \<Rightarrow> bool) \<Rightarrow> 'a \<Rightarrow> 'a list \<Rightarrow> 'a list" where
  "insertBy precedes x [] = [x]"
| "insertBy precedes x (y # ys) = (if precedes y x then y # insertBy precedes x ys else x # y # ys)"

definition sortBy :: "('a \<Rightarrow> 'a \<Rightarrow> bool) \<Rightarrow> 'a list \<Rightarrow> 'a list" where
  "sortBy precedes xs = foldr (insertBy precedes) xs []"

text \<open>
  The library sorts the export declarations of a file and puts them all where the first
  of them stood. (It also merges the export declarations of one source; a file of the
  builder has at most one for each source.)
\<close>

fun isExport :: "statement \<Rightarrow> bool" where
  "isExport (ExportDeclaration e) = True"
| "isExport s = False"

definition arrangeExports :: "'x Helpers \<Rightarrow> statement list \<Rightarrow> statement list" where
  "arrangeExports env ss =
     takeWhile (\<lambda>s. \<not> isExport s) ss
     @ map ExportDeclaration (sortBy (exportBefore env) (getExportDeclarations ss))
     @ filter (\<lambda>s. \<not> isExport s) (dropWhile (\<lambda>s. \<not> isExport s) ss)"

text \<open>
  \<^verbatim>\<open>organizeImports\<close> rewrites the import declarations of a file, from what the file
  holds, and sorts its export declarations; it changes nothing else. In every file of
  the builder the imports are the leading statements.
\<close>

definition organizeImports :: "'x Helpers \<Rightarrow> SourceFile \<Rightarrow> SourceFile" where
  "organizeImports env f =
     f\<lparr>statements :=
         map ImportDeclaration (organize env (importsOf (statements f)) (othersOf (statements f)))
         @ arrangeExports env (othersOf (statements f))\<rparr>"

text \<open>\<^verbatim>\<open>String.prototype.includes\<close>.\<close>

fun includes_str :: "string \<Rightarrow> string \<Rightarrow> bool" where
  "includes_str [] sub = (sub = [])"
| "includes_str (c # cs) sub = (take (length sub) (c # cs) = sub \<or> includes_str cs sub)"

section \<open>The builder\<close>

definition addFile :: "'x Helpers \<Rightarrow> Project \<Rightarrow> string \<Rightarrow> SourceFile \<times> Project" where
  "addFile env p name = createSourceFile env p name"

text \<open>Returns the declaration (its name) together with the file it was added to.\<close>

definition createInterfaceDeclaration :: "SourceFile \<Rightarrow> string \<Rightarrow> string \<times> SourceFile" where
  "createInterfaceDeclaration file name =
     (name, addInterface \<lparr>iface_name = name, iface_exported = True, properties = []\<rparr> file)"

definition addDefaultImports :: "SourceFile \<Rightarrow> SourceFile" where
  "addDefaultImports file =
     addImportDeclaration
       \<lparr>moduleSpecifier = ''@src/types/contentful/static'', namedImports = [''CMSEntry''],
        namespaceImport = None, defaultImport = None, isTypeOnly = False\<rparr>
       (addImportDeclaration
          \<lparr>moduleSpecifier = ''contentful'', namedImports = [],
           namespaceImport = Some ''Contentful'', defaultImport = None, isTypeOnly = False\<rparr>
          file)"

definition addProperty ::
  "'x Helpers \<Rightarrow> SourceFile \<Rightarrow> string \<Rightarrow> 'x Field_scheme \<Rightarrow> SourceFile" where
  "addProperty env file declaration field =
     (let type = renderProp env field;
          f1 = addPropertySignature declaration
                 \<lparr>prop_name = field_id field,
                  hasQuestionToken = (omitted field \<or> \<not> required field),
                  prop_type = type\<rparr> file;
          f2 = (if includes_str type ''Contentful.''
                then addImportDeclaration
                       \<lparr>moduleSpecifier = ''contentful'', namedImports = [],
                        namespaceImport = Some ''Contentful'', defaultImport = None,
                        isTypeOnly = False\<rparr> f1
                else f1);
          f3 = (if includes_str type ''EntryLink''
                then addImportDeclaration
                       \<lparr>moduleSpecifier = ''@src/types/contentful/static'',
                        namedImports = [''EntryLink''],
                        namespaceImport = None, defaultImport = None, isTypeOnly = False\<rparr> f2
                else f2);
          f4 = addImportDeclaration
                 \<lparr>moduleSpecifier = ''@contentful/rich-text-types'', namedImports = [],
                  namespaceImport = Some ''CFRichTextTypes'', defaultImport = None,
                  isTypeOnly = False\<rparr> f3
      in addImportDeclarations (propertyImports env field (baseName f4)) f4)"

definition addEntryTypeAlias ::
  "'x Helpers \<Rightarrow> SourceFile \<Rightarrow> string \<Rightarrow> string \<Rightarrow> SourceFile" where
  "addEntryTypeAlias env file aliasName entryType =
     (let typeIdName = moduleTypeIdName env (baseName file);
          f1 = addStatements
                 [''export const '' @ typeIdName @ '' = '' @ [CHR 0x27] @ aliasName
                  @ [CHR 0x27] @ '';''] file
      in addTypeAlias
           \<lparr>alias_name = moduleName env aliasName, alias_exported = True,
            alias_type = renderGenericType env ''CMSEntry''
                           (''typeof '' @ typeIdName @ '', '' @ entryType)\<rparr> f1)"

text \<open>
  \<^verbatim>\<open>appendType\<close> returns the builder; here it returns the outcome and the project. The
  check of \<^verbatim>\<open>sys.type\<close> throws before anything is touched.
\<close>

definition appendType ::
  "'x Helpers \<Rightarrow> Project \<Rightarrow> 'x CFContentType \<Rightarrow> (error + unit) \<times> Project" where
  "appendType env p model =
     (if sys_type (sys model) \<noteq> ''ContentType'' then (Inl InvalidDescriptorError, p)
      else
        let (file, p1) = addFile env p (moduleName env (sys_id (sys model)));
            f1 = addDefaultImports file;
            (interfaceDeclaration, f2) =
               createInterfaceDeclaration f1 (moduleFieldsName env (sys_id (sys model)));
            f3 = fold (\<lambda>field f. addProperty env f interfaceDeclaration field) (ct_fields model) f2;
            f4 = addEntryTypeAlias env f3 (sys_id (sys model))
                   (moduleFieldsName env (sys_id (sys model)));
            f5 = organizeImports env f4
        in (Inr (), putSourceFile env f5 p1))"

text \<open>One round of the loop of \<^verbatim>\<open>addIndexFile\<close> over the file names.\<close>

definition addIndexEntry ::
  "'x Helpers \<Rightarrow> string \<Rightarrow> SourceFile \<times> string list \<Rightarrow> SourceFile \<times> string list" where
  "addIndexEntry env fileName acc =
     (let (indexFile, cmsEntries) = acc;
          i1 = addImportDeclaration
                 \<lparr>moduleSpecifier = ''./'' @ fileName,
                  namedImports = [moduleName env fileName, moduleFieldsName env fileName],
                  namespaceImport = None, defaultImport = None, isTypeOnly = True\<rparr> indexFile;
          i2 = addExportDeclaration
                 \<lparr>exportSpecifier = None,
                  namedExports = [moduleName env fileName, moduleFieldsName env fileName],
                  exportTypeOnly = True\<rparr> i1;
          i3 = addExportDeclaration
                 \<lparr>exportSpecifier = Some (''./'' @ fileName),
                  namedExports = [moduleTypeIdName env fileName],
                  exportTypeOnly = False\<rparr> i2
      in (i3, cmsEntries @ [moduleName env fileName]))"

definition addIndexFile :: "'x Helpers \<Rightarrow> Project \<Rightarrow> Project" where
  "addIndexFile env p =
     (let p1 = (case getSourceFile (\<lambda>file. baseName file = ''index'') p of
                  Some oldIndexFile \<Rightarrow> removeSourceFile oldIndexFile p
                | None \<Rightarrow> p);
          files = map baseName (getSourceFiles p1);
          (indexFile, p2) = addFile env p1 ''index'';
          i1 = addImportDeclaration
                 \<lparr>moduleSpecifier = ''@src/types/contentful/static'',
                  namedImports = [''CMSManagementEntry''],
                  namespaceImport = None, defaultImport = None, isTypeOnly = False\<rparr> indexFile;
          (i2, cmsEntries) = fold (addIndexEntry env) files (i1, []);
          i3 = addTypeAlias
                 \<lparr>alias_name = ''CMSEntries'', alias_exported = True,
                  alias_type = renderUnionType env cmsEntries\<rparr> i2;
          i4 = addTypeAlias
                 \<lparr>alias_name = ''CMSManagementEntries'', alias_exported = True,
                  alias_type = renderUnionType env
                    (map (\<lambda>name. renderGenericType env ''CMSManagementEntry'' name) cmsEntries)\<rparr> i3;
          i5 = organizeImports env i4
      in putSourceFile env i5 p2)"

text \<open>
  \<^verbatim>\<open>write\<close> rebuilds the index and writes every file of the project. The result lists
  the writes, each a target path with the file whose full text goes there, and the
  project as \<^verbatim>\<open>write\<close> leaves it.
\<close>

definition write_files :: "'x Helpers \<Rightarrow> Project \<Rightarrow> string \<Rightarrow> (string \<times> SourceFile) list \<times> Project" where
  "write_files env p dir =
     (let p1 = addIndexFile env p
      in (map (\<lambda>file. (resolve env dir (drop 1 (getFilePath file)), file)) (getSourceFiles p1),
          p1))"

text \<open>
  The state of the walk of \<^verbatim>\<open>mergeFile\<close>: the pending imports, the names defined so
  far, and the merge file as filled so far.
\<close>

record MergeState =
  imports_acc :: "ImportDeclarationStructure list"
  types_acc :: "string list"
  mergeTarget :: SourceFile

text \<open>
  The callback of \<^verbatim>\<open>forEachStructureChild\<close> run over the children in order: the switch
  on the kind of the child, with its three cases and the default that throws. A throw
  ends the walk; the merge file keeps what was added before it.
\<close>

fun forEachStructureChild :: "statement list \<Rightarrow> MergeState \<Rightarrow> MergeState \<times> error option" where
  "forEachStructureChild [] st = (st, None)"
| "forEachStructureChild (ImportDeclaration d # cs) st =
     forEachStructureChild cs (st\<lparr>imports_acc := imports_acc st @ [d]\<rparr>)"
| "forEachStructureChild (Interface i # cs) st =
     forEachStructureChild cs
       (st\<lparr>types_acc := types_acc st @ [iface_name i],
           mergeTarget := addInterface i (mergeTarget st)\<rparr>)"
| "forEachStructureChild (TypeAlias t # cs) st =
     forEachStructureChild cs
       (st\<lparr>types_acc := types_acc st @ [alias_name t],
           mergeTarget := addTypeAlias t (mergeTarget st)\<rparr>)"
| "forEachStructureChild (c # cs) st =
     (st, Some (UnsupportedDeclarationKindError (kindName c)))"

text \<open>
  \<^verbatim>\<open>mergeFile\<close>: the nested loops over the source files and their children are one walk
  over the children of all files other than the merge file, in order.
\<close>

definition mergeFile ::
  "'x Helpers \<Rightarrow> Project \<Rightarrow> string \<Rightarrow> (error + SourceFile) \<times> Project" where
  "mergeFile env p mergeFileName =
     (let (mergeFile0, p1) = addFile env p mergeFileName;
          sources = filter (\<lambda>sourceFile. baseName sourceFile \<noteq> mergeFileName)
                      (getSourceFiles p1);
          (st, thrown) = forEachStructureChild (concat (map statements sources))
                           \<lparr>imports_acc = [], types_acc = [], mergeTarget = mergeFile0\<rparr>
      in case thrown of
           Some e \<Rightarrow> (Inl e, putSourceFile env (mergeTarget st) p1)
         | None \<Rightarrow>
             let m1 = fold (\<lambda>importD m.
                              if drop 2 (moduleSpecifier importD) \<in> set (types_acc st) then m
                              else addImportDeclaration importD m)
                        (imports_acc st) (mergeTarget st);
                 m2 = organizeImports env m1
             in (Inr m2, putSourceFile env m2 p1))"

text \<open>
  \<^verbatim>\<open>toString\<close> is the full text of the merged file; the result here is that file, or
  the error \<^verbatim>\<open>mergeFile\<close> throws.
\<close>

definition toString :: "'x Helpers \<Rightarrow> Project \<Rightarrow> (error + SourceFile) \<times> Project" where
  "toString env p = mergeFile env p ''ContentTypes''"

section \<open>Observations on files and projects\<close>

text \<open>A new builder starts from an empty project.\<close>

definition newBuilder :: Project where
  "newBuilder = []"

text \<open>Appending a list of descriptors in order (a descriptor that is refused is skipped).\<close>

definition appendTypes :: "'x Helpers \<Rightarrow> Project \<Rightarrow> 'x CFContentType list \<Rightarrow> Project" where
  "appendTypes env p ds = fold (\<lambda>d q. snd (appendType env q d)) ds p"

fun getInterfaces :: "statement list \<Rightarrow> InterfaceDeclarationStructure list" where
  "getInterfaces [] = []"
| "getInterfaces (Interface i # ss) = i # getInterfaces ss"
| "getInterfaces (s # ss) = getInterfaces ss"

fun getTypeAliases :: "statement list \<Rightarrow> TypeAliasDeclarationStructure list" where
  "getTypeAliases [] = []"
| "getTypeAliases (TypeAlias t # ss) = t # getTypeAliases ss"
| "getTypeAliases (s # ss) = getTypeAliases ss"

text \<open>The names of the interfaces and type aliases among some statements, in order.\<close>

fun declaredNames :: "statement list \<Rightarrow> string list" where
  "declaredNames [] = []"
| "declaredNames (Interface i # ss) = iface_name i # declaredNames ss"
| "declaredNames (TypeAlias t # ss) = alias_name t # declaredNames ss"
| "declaredNames (s # ss) = declaredNames ss"

text \<open>The three kinds the switch of \<^verbatim>\<open>mergeFile\<close> has a case for.\<close>

fun mergeable :: "statement \<Rightarrow> bool" where
  "mergeable (ImportDeclaration _) = True"
| "mergeable (Interface _) = True"
| "mergeable (TypeAlias _) = True"
| "mergeable _ = False"

text \<open>The module with a given name, and the type of the index module's \<open>CMSEntries\<close>.\<close>

definition moduleNamed :: "Project \<Rightarrow> string \<Rightarrow> SourceFile option" where
  "moduleNamed p n = getSourceFile (\<lambda>file. baseName file = n) p"

definition cmsEntriesType :: "Project \<Rightarrow> string option" where
  "cmsEntriesType p =
     (case moduleNamed p ''index'' of
        None \<Rightarrow> None
      | Some indexFile \<Rightarrow>
          map_option alias_type
            (find (\<lambda>t. alias_name t = ''CMSEntries'') (getTypeAliases (statements indexFile))))"

text \<open>The property signature \<^verbatim>\<open>addProperty\<close> gives a field.\<close>

definition propertyOf :: "'x Helpers \<Rightarrow> 'x Field_scheme \<Rightarrow> PropertySignatureStructure" where
  "propertyOf env field =
     \<lparr>prop_name = field_id field,
      hasQuestionToken = (omitted field \<or> \<not> required field),
      prop_type = renderProp env field\<rparr>"

text \<open>
  The module \<^verbatim>\<open>appendType\<close> builds for a descriptor, as a function of the descriptor
  alone: the steps of \<^verbatim>\<open>appendType\<close> on a fresh file.
\<close>

definition entityModule :: "'x Helpers \<Rightarrow> 'x CFContentType \<Rightarrow> SourceFile" where
  "entityModule env model =
     (let ident = sys_id (sys model);
          f1 = addDefaultImports \<lparr>baseName = moduleName env ident, statements = []\<rparr>;
          f2 = snd (createInterfaceDeclaration f1 (moduleFieldsName env ident));
          f3 = fold (\<lambda>field f. addProperty env f (moduleFieldsName env ident) field)
                 (ct_fields model) f2;
          f4 = addEntryTypeAlias env f3 ident (moduleFieldsName env ident)
      in organizeImports env f4)"

text \<open>The export declarations \<^verbatim>\<open>addIndexFile\<close> writes for one file name.\<close>

definition indexExports :: "'x Helpers \<Rightarrow> string \<Rightarrow> ExportDeclarationStructure list" where
  "indexExports env fileName =
     [\<lparr>exportSpecifier = None,
       namedExports = [moduleName env fileName, moduleFieldsName env fileName],
       exportTypeOnly = True\<rparr>,
      \<lparr>exportSpecifier = Some (''./'' @ fileName),
       namedExports = [moduleTypeIdName env fileName],
       exportTypeOnly = False\<rparr>]"

section \<open>What the builder produces\<close>

text \<open>
  Closed forms of the builder's results, used to state and prove the properties below.
  The statement declaring the type-id constant and the entry alias of a descriptor:
\<close>

definition typeIdStatement :: "'x Helpers \<Rightarrow> string \<Rightarrow> string" where
  "typeIdStatement env ident =
     ''export const '' @ moduleTypeIdName env (moduleName env ident) @ '' = '' @ [CHR 0x27]
     @ ident @ [CHR 0x27] @ '';''"

definition entryAlias :: "'x Helpers \<Rightarrow> string \<Rightarrow> TypeAliasDeclarationStructure" where
  "entryAlias env ident =
     \<lparr>alias_name = moduleName env ident, alias_exported = True,
      alias_type = renderGenericType env ''CMSEntry''
        (''typeof '' @ moduleTypeIdName env (moduleName env ident) @ '', ''
         @ moduleFieldsName env ident)\<rparr>"

text \<open>The index module \<^verbatim>\<open>addIndexFile\<close> builds for a list of file names.\<close>

definition indexModule :: "'x Helpers \<Rightarrow> string list \<Rightarrow> SourceFile" where
  "indexModule env files =
     (let i1 = addImportDeclaration
                 \<lparr>moduleSpecifier = ''@src/types/contentful/static'',
                  namedImports = [''CMSManagementEntry''],
                  namespaceImport = None, defaultImport = None, isTypeOnly = False\<rparr>
                 \<lparr>baseName = ''index'', statements = []\<rparr>;
          (i2, cmsEntries) = fold (addIndexEntry env) files (i1, []);
          i3 = addTypeAlias
                 \<lparr>alias_name = ''CMSEntries'', alias_exported = True,
                  alias_type = renderUnionType env cmsEntries\<rparr> i2;
          i4 = addTypeAlias
                 \<lparr>alias_name = ''CMSManagementEntries'', alias_exported = True,
                  alias_type = renderUnionType env
                    (map (\<lambda>name. renderGenericType env ''CMSManagementEntry'' name) cmsEntries)\<rparr> i3
      in organizeImports env i4)"

text \<open>
  The children \<^verbatim>\<open>mergeFile\<close> walks (those of every file but the merge file), and the
  module it returns when none of them makes it throw.
\<close>

definition mergeChildren :: "Project \<Rightarrow> string \<Rightarrow> statement list" where
  "mergeChildren p mergeFileName =
     concat (map statements (filter (\<lambda>sourceFile. baseName sourceFile \<noteq> mergeFileName)
       (getSourceFiles p)))"


section \<open>An instance of the helpers\<close>

text \<open>
  Upper case for the letters \<open>a\<close> to \<open>z\<close>, for the first letter of a string, and the
  strings of a list joined with a separator.
\<close>

definition toUpperCase_char :: "char \<Rightarrow> char" where
  "toUpperCase_char c =
     (if (97::nat) \<le> of_char c \<and> of_char c \<le> (122::nat)
      then (case c of Char b0 b1 b2 b3 b4 b5 b6 b7 \<Rightarrow> Char b0 b1 b2 b3 b4 False b6 b7)
      else c)"

definition upperFirst :: "string \<Rightarrow> string" where
  "upperFirst s = (case s of [] \<Rightarrow> [] | c # cs \<Rightarrow> toUpperCase_char c # cs)"

fun joinWith :: "string \<Rightarrow> string list \<Rightarrow> string" where
  "joinWith sep [] = []"
| "joinWith sep [x] = x"
| "joinWith sep (x # y # ys) = x @ sep @ joinWith sep (y # ys)"

text \<open>
  Two orders on names. The one of identifiers and module specifiers compares the
  upper-cased names character by character; the one of file names does the same and,
  where that does not decide, puts an upper-case letter before its lower-case letter.
  (The latter is the order of the library's locale comparison on names made of letters,
  digits and dots.)
\<close>

fun lexBefore :: "nat list \<Rightarrow> nat list \<Rightarrow> bool" where
  "lexBefore [] [] = False"
| "lexBefore [] (y # ys) = True"
| "lexBefore (x # xs) [] = False"
| "lexBefore (x # xs) (y # ys) = (x < y \<or> (x = y \<and> lexBefore xs ys))"

definition foldCase :: "string \<Rightarrow> nat list" where
  "foldCase a = map (\<lambda>c. of_char (toUpperCase_char c)) a"

definition identifierBefore :: "string \<Rightarrow> string \<Rightarrow> bool" where
  "identifierBefore a b = lexBefore (foldCase a) (foldCase b)"

definition nameBefore :: "string \<Rightarrow> string \<Rightarrow> bool" where
  "nameBefore a b =
     (lexBefore (foldCase a) (foldCase b)
      \<or> (foldCase a = foldCase b \<and> lexBefore (map of_char a) (map of_char b)))"

text \<open>
  Modelled from the spec: import normalisation (drop unused, merge duplicates), with the
  sorting the language service adds. A name counts as used when it occurs in the text
  of a property type, of a type alias, of a statement, or among the names of an export
  declaration without a source. An import that binds names and is left with none is
  dropped. The imports of named bindings from one source (of the same kind) are merged
  into the first of them, the names sorted; the imports of packages come before the
  relative ones, each group sorted by source.
\<close>

fun textsOf :: "statement \<Rightarrow> string list" where
  "textsOf (ImportDeclaration d) = []"
| "textsOf (ExportDeclaration e) = (if exportSpecifier e = None then namedExports e else [])"
| "textsOf (Interface i) = map prop_type (properties i)"
| "textsOf (TypeAlias t) = [alias_type t]"
| "textsOf (VariableStatement text) = [text]"

definition isReferenced :: "statement list \<Rightarrow> string \<Rightarrow> bool" where
  "isReferenced others n = list_ex (\<lambda>text. includes_str text n) (concat (map textsOf others))"

definition bindsNames :: "ImportDeclarationStructure \<Rightarrow> bool" where
  "bindsNames d = (namedImports d \<noteq> [] \<or> namespaceImport d \<noteq> None \<or> defaultImport d \<noteq> None)"

definition removeUnused ::
  "statement list \<Rightarrow> ImportDeclarationStructure \<Rightarrow> ImportDeclarationStructure" where
  "removeUnused others d =
     d\<lparr>namedImports := filter (isReferenced others) (namedImports d),
       namespaceImport := (case namespaceImport d of
                            None \<Rightarrow> None
                          | Some n \<Rightarrow> if isReferenced others n then Some n else None),
       defaultImport := (case defaultImport d of
                          None \<Rightarrow> None
                        | Some n \<Rightarrow> if isReferenced others n then Some n else None)\<rparr>"

definition usedImports ::
  "statement list \<Rightarrow> ImportDeclarationStructure \<Rightarrow> ImportDeclarationStructure list" where
  "usedImports others d =
     (if bindsNames d
      then (if bindsNames (removeUnused others d) then [removeUnused others d] else [])
      else [d])"

definition sameSource :: "ImportDeclarationStructure \<Rightarrow> ImportDeclarationStructure \<Rightarrow> bool" where
  "sameSource d e =
     (d = e \<or>
      (moduleSpecifier d = moduleSpecifier e \<and> isTypeOnly d = isTypeOnly e
       \<and> namedImports d \<noteq> [] \<and> namedImports e \<noteq> []
       \<and> namespaceImport d = None \<and> namespaceImport e = None
       \<and> defaultImport d = None \<and> defaultImport e = None))"

fun addCoalesced ::
  "ImportDeclarationStructure \<Rightarrow> ImportDeclarationStructure list \<Rightarrow> ImportDeclarationStructure list" where
  "addCoalesced d [] = [d]"
| "addCoalesced d (e # es) =
     (if sameSource d e
      then e\<lparr>namedImports :=
               namedImports e @ filter (\<lambda>n. n \<notin> set (namedImports e)) (namedImports d)\<rparr> # es
      else e # addCoalesced d es)"

definition isRelative :: "string \<Rightarrow> bool" where
  "isRelative specifier =
     (specifier = ''.'' \<or> specifier = ''..'' \<or> take 2 specifier = ''./''
      \<or> take 3 specifier = ''../'')"

definition specifierBefore :: "string \<Rightarrow> string \<Rightarrow> bool" where
  "specifierBefore a b =
     ((\<not> isRelative a \<and> isRelative b) \<or> (isRelative a = isRelative b \<and> identifierBefore a b))"

definition organizeSpec ::
  "ImportDeclarationStructure list \<Rightarrow> statement list \<Rightarrow> ImportDeclarationStructure list" where
  "organizeSpec ds others =
     sortBy (\<lambda>d e. specifierBefore (moduleSpecifier d) (moduleSpecifier e))
       (map (\<lambda>d. d\<lparr>namedImports := sortBy identifierBefore (namedImports d)\<rparr>)
          (fold addCoalesced (concat (map (usedImports others) ds)) []))"

text \<open>
  The export declarations with a source come first, in the order of their sources, then
  those without.
\<close>

definition exportBeforeSpec :: "ExportDeclarationStructure \<Rightarrow> ExportDeclarationStructure \<Rightarrow> bool" where
  "exportBeforeSpec a b =
     (case (exportSpecifier a, exportSpecifier b) of
        (Some x, Some y) \<Rightarrow> specifierBefore x y
      | (Some x, None) \<Rightarrow> True
      | _ \<Rightarrow> False)"

text \<open>
  Modelled from the spec: the naming helpers of \<^verbatim>\<open>./utils\<close> and the renderers, which are
  not part of the source. The spec gives \<open>moduleName\<close> as the PascalCase entity name,
  \<open>moduleFieldsName\<close> as that name with a suffix for "fields" and \<open>moduleTypeIdName\<close> as
  the upper-case name of the type-id constant; its scenarios fix them on \<open>post\<close> as
  \<open>Post\<close>, \<open>PostFields\<close> and \<open>POST_TYPE_ID\<close>, a union by its members joined with \<open>|\<close>
  and the generic instantiation as \<open>CMSEntry<typeof POST_TYPE_ID, PostFields>\<close>. The
  project of the library enumerates its files sorted by file name, so a file created
  under a new name takes its place in that order. The instance serves to evaluate the
  builder on concrete descriptors.
\<close>

definition specHelpers :: "unit Helpers" where
  "specHelpers =
     \<lparr>moduleName = upperFirst,
      moduleFieldsName = (\<lambda>n. upperFirst n @ ''Fields''),
      moduleTypeIdName = (\<lambda>n. map toUpperCase_char n @ ''_TYPE_ID''),
      renderProp = (\<lambda>field. ''Contentful.EntryFields.'' @ field_type field),
      propertyImports = (\<lambda>field n. []),
      renderUnionType = joinWith '' | '',
      renderGenericType = (\<lambda>g a. g @ ''<'' @ a @ ''>''),
      organize = organizeSpec,
      exportBefore = exportBeforeSpec,
      enumerationIndex =
        (\<lambda>name names. length (filter (\<lambda>n. nameBefore (n @ ''.ts'') (name @ ''.ts'')) names)),
      resolve = (\<lambda>dir rel. dir @ ''/'' @ rel)\<rparr>"

text \<open>
  Two descriptors of the spec's scenarios, one that is not a content type, and one whose
  identifier differs from \<open>post\<close> in its first letter only.
\<close>

definition postType :: "unit CFContentType" where
  "postType =
     \<lparr>ct_name = ''Post'', ct_id = ''post'',
      sys = \<lparr>sys_id = ''post'', sys_type = ''ContentType''\<rparr>,
      ct_fields = [\<lparr>field_id = ''title'', field_type = ''Text'', required = True,
                    omitted = False\<rparr>]\<rparr>"

definition authorType :: "unit CFContentType" where
  "authorType =
     \<lparr>ct_name = ''Author'', ct_id = ''author'',
      sys = \<lparr>sys_id = ''author'', sys_type = ''ContentType''\<rparr>,
      ct_fields = [\<lparr>field_id = ''bio'', field_type = ''Text'', required = False,
                    omitted = False\<rparr>]\<rparr>"

definition assetType :: "unit CFContentType" where
  "assetType =
     \<lparr>ct_name = ''Asset'', ct_id = ''asset'',
      sys = \<lparr>sys_id = ''asset'', sys_type = ''Asset''\<rparr>,
      ct_fields = []\<rparr>"

definition capitalPostType :: "unit CFContentType" where
  "capitalPostType =
     \<lparr>ct_name = ''Post'', ct_id = ''Post'',
      sys = \<lparr>sys_id = ''Post'', sys_type = ''ContentType''\<rparr>,
      ct_fields = [\<lparr>field_id = ''headline'', field_type = ''Symbol'', required = True,
                    omitted = False\<rparr>]\<rparr>"



section \<open>Lemmas: statements and files\<close>

lemma importsOf_insertImport: "importsOf (insertImport d ss) = importsOf ss @ [d]"
proof (induction ss)
  case Nil
  show ?case by simp
next
  case (Cons s ss)
  have none: "\<not> list_ex isImport xs \<Longrightarrow> importsOf xs = []" for xs
    by (induction xs rule: importsOf.induct) auto
  show ?case
  proof (cases "list_ex isImport (s # ss)")
    case True
    then show ?thesis using Cons by (cases s) auto
  next
    case False
    then have "importsOf (s # ss) = []" by (rule none)
    with False show ?thesis by simp
  qed
qed

lemma othersOf_insertImport: "othersOf (insertImport d ss) = othersOf ss"
  by (induction ss) (auto simp: othersOf_def)

lemma othersOf_Nil: "othersOf [] = []"
  by (simp add: othersOf_def)

lemma othersOf_Cons: "othersOf (s # ss) = (if isImport s then othersOf ss else s # othersOf ss)"
  by (simp add: othersOf_def)

lemma othersOf_append: "othersOf (xs @ ys) = othersOf xs @ othersOf ys"
  by (simp add: othersOf_def)

lemma othersOf_imports: "othersOf (map ImportDeclaration ds) = []"
  by (induction ds) (auto simp: othersOf_def)





lemma baseName_addImportDeclaration: "baseName (addImportDeclaration d f) = baseName f"
  by (simp add: addImportDeclaration_def)

lemma baseName_addImportDeclarations: "baseName (addImportDeclarations ds f) = baseName f"
  unfolding addImportDeclarations_def
  by (induction ds arbitrary: f) (auto simp: baseName_addImportDeclaration)

lemma others_addImportDeclaration:
  "othersOf (statements (addImportDeclaration d f)) = othersOf (statements f)"
  by (simp add: addImportDeclaration_def othersOf_insertImport)

lemma others_addImportDeclarations:
  "othersOf (statements (addImportDeclarations ds f)) = othersOf (statements f)"
  unfolding addImportDeclarations_def
  by (induction ds arbitrary: f) (auto simp: others_addImportDeclaration)

lemma baseName_organizeImports: "baseName (organizeImports env f) = baseName f"
  by (simp add: organizeImports_def)

lemma set_insertBy: "set (insertBy precedes x xs) = insert x (set xs)"
  by (induction xs) auto

lemma set_sortBy: "set (sortBy precedes xs) = set xs"
  by (induction xs) (auto simp: sortBy_def set_insertBy)

lemma length_insertBy: "length (insertBy precedes x xs) = Suc (length xs)"
  by (induction xs) auto

lemma length_sortBy: "length (sortBy precedes xs) = length xs"
  by (induction xs) (auto simp: sortBy_def length_insertBy)

lemma sortBy_Nil: "sortBy precedes [] = []"
  by (simp add: sortBy_def)

lemma getExportDeclarations_none:
  "\<forall>s\<in>set ss. \<not> isExport s \<Longrightarrow> getExportDeclarations ss = []"
  by (induction ss rule: getExportDeclarations.induct) auto

lemma arrangeExports_none:
  assumes "\<forall>s\<in>set ss. \<not> isExport s"
  shows "arrangeExports env ss = ss"
proof -
  from assms have t: "takeWhile (\<lambda>s. \<not> isExport s) ss = ss"
    and d: "dropWhile (\<lambda>s. \<not> isExport s) ss = []"
    by simp_all
  from assms have e: "getExportDeclarations ss = []" by (rule getExportDeclarations_none)
  show ?thesis
    by (simp only: arrangeExports_def t d e sortBy_Nil) simp
qed

lemma set_arrangeExports:
  "set (arrangeExports env ss) \<subseteq>
     set ss \<union> ExportDeclaration ` set (getExportDeclarations ss)"
proof -
  have "set (takeWhile (\<lambda>s. \<not> isExport s) ss) \<subseteq> set ss"
    by (auto dest: set_takeWhileD)
  moreover have "set (dropWhile (\<lambda>s. \<not> isExport s) ss) \<subseteq> set ss"
    by (auto dest: set_dropWhileD)
  ultimately show ?thesis
    by (auto simp: arrangeExports_def set_sortBy)
qed

lemma isImport_arrangeExports:
  assumes "\<forall>s\<in>set ss. \<not> isImport s"
  shows "\<forall>s\<in>set (arrangeExports env ss). \<not> isImport s"
proof
  fix s assume "s \<in> set (arrangeExports env ss)"
  with set_arrangeExports [of env ss]
  have "s \<in> set ss \<or> s \<in> ExportDeclaration ` set (getExportDeclarations ss)" by blast
  then show "\<not> isImport s"
  proof
    assume "s \<in> set ss" with assms show ?thesis by simp
  next
    assume "s \<in> ExportDeclaration ` set (getExportDeclarations ss)"
    then show ?thesis by auto
  qed
qed

lemma othersOf_arrangeExports:
  "othersOf (arrangeExports env (othersOf ss)) = arrangeExports env (othersOf ss)"
proof -
  have "\<forall>s\<in>set (othersOf ss). \<not> isImport s" by (simp add: othersOf_def)
  from isImport_arrangeExports [OF this, of env]
  show ?thesis by (simp add: othersOf_def [of "arrangeExports env (othersOf ss)"] filter_id_conv)
qed



lemma others_organizeImports:
  "othersOf (statements (organizeImports env f)) = arrangeExports env (othersOf (statements f))"
  by (simp add: organizeImports_def othersOf_append othersOf_imports othersOf_arrangeExports)

lemma others_organizeImports_none:
  assumes "\<forall>s\<in>set (othersOf (statements f)). \<not> isExport s"
  shows "othersOf (statements (organizeImports env f)) = othersOf (statements f)"
  by (simp only: others_organizeImports arrangeExports_none [OF assms])


lemma isImport_addPropertyTo: "isImport (addPropertyTo n pr s) = isImport s"
  by (cases s) auto

lemma others_addPropertySignature:
  "othersOf (statements (addPropertySignature n pr f)) =
     map (addPropertyTo n pr) (othersOf (statements f))"
  by (simp add: addPropertySignature_def othersOf_def filter_map o_def isImport_addPropertyTo)

lemma baseName_addProperty: "baseName (addProperty env f n field) = baseName f"
  by (simp add: addProperty_def Let_def baseName_addImportDeclarations
      baseName_addImportDeclaration addPropertySignature_def)

lemma others_addProperty:
  "othersOf (statements (addProperty env f n field)) =
     map (addPropertyTo n (propertyOf env field)) (othersOf (statements f))"
  by (simp add: addProperty_def Let_def others_addImportDeclarations
      others_addImportDeclaration others_addPropertySignature propertyOf_def)

lemma baseName_fold_addProperty:
  "baseName (fold (\<lambda>field f. addProperty env f n field) fs f) = baseName f"
  by (induction fs arbitrary: f) (auto simp: baseName_addProperty)

lemma others_fold_addProperty:
  "othersOf (statements f) = [Interface \<lparr>iface_name = n, iface_exported = ex, properties = ps\<rparr>] \<Longrightarrow>
   othersOf (statements (fold (\<lambda>field f. addProperty env f n field) fs f)) =
     [Interface \<lparr>iface_name = n, iface_exported = ex,
                 properties = ps @ map (propertyOf env) fs\<rparr>]"
proof (induction fs arbitrary: f ps)
  case Nil
  then show ?case by simp
next
  case (Cons a fs)
  have "othersOf (statements (addProperty env f n a)) =
          [Interface \<lparr>iface_name = n, iface_exported = ex, properties = ps @ [propertyOf env a]\<rparr>]"
    by (simp add: others_addProperty Cons.prems)
  from Cons.IH [OF this] show ?case by simp
qed

lemma baseName_entityModule:
  "baseName (entityModule env model) = moduleName env (sys_id (sys model))"
  by (simp add: entityModule_def Let_def baseName_organizeImports addEntryTypeAlias_def
      addTypeAlias_def addStatements_def baseName_fold_addProperty createInterfaceDeclaration_def
      addInterface_def addDefaultImports_def baseName_addImportDeclaration)

lemma others_entityModule:
  "othersOf (statements (entityModule env model)) =
     [Interface \<lparr>iface_name = moduleFieldsName env (sys_id (sys model)), iface_exported = True,
                 properties = map (propertyOf env) (ct_fields model)\<rparr>,
      VariableStatement (typeIdStatement env (sys_id (sys model))),
      TypeAlias (entryAlias env (sys_id (sys model)))]"
proof -
  let ?n = "moduleFieldsName env (sys_id (sys model))"
  let ?f2 = "snd (createInterfaceDeclaration
                (addDefaultImports \<lparr>baseName = moduleName env (sys_id (sys model)), statements = []\<rparr>) ?n)"
  have f2: "othersOf (statements ?f2) =
      [Interface \<lparr>iface_name = ?n, iface_exported = True, properties = []\<rparr>]"
    by (simp add: createInterfaceDeclaration_def addInterface_def addDefaultImports_def
        othersOf_append othersOf_Nil othersOf_Cons others_addImportDeclaration)
  have bn: "baseName ?f2 = moduleName env (sys_id (sys model))"
    by (simp add: createInterfaceDeclaration_def addInterface_def addDefaultImports_def
        addImportDeclaration_def)
  from others_fold_addProperty [OF f2, of env "ct_fields model"] bn
  show ?thesis
    by (simp add: entityModule_def Let_def others_organizeImports addEntryTypeAlias_def
        addTypeAlias_def addStatements_def othersOf_append baseName_fold_addProperty
        typeIdStatement_def entryAlias_def othersOf_Nil othersOf_Cons
        arrangeExports_def sortBy_Nil)
qed

lemma getTypeAliases_append: "getTypeAliases (xs @ ys) = getTypeAliases xs @ getTypeAliases ys"
  by (induction xs rule: getTypeAliases.induct) auto

lemma getTypeAliases_othersOf: "getTypeAliases (othersOf ss) = getTypeAliases ss"
  by (induction ss rule: getTypeAliases.induct) (auto simp: othersOf_def)

lemma getExportDeclarations_append:
  "getExportDeclarations (xs @ ys) = getExportDeclarations xs @ getExportDeclarations ys"
  by (induction xs rule: getExportDeclarations.induct) auto

lemma getExportDeclarations_othersOf: "getExportDeclarations (othersOf ss) = getExportDeclarations ss"
  by (induction ss rule: getExportDeclarations.induct) (auto simp: othersOf_def)

lemma getTypeAliases_exports: "getTypeAliases (map ExportDeclaration es) = []"
  by (induction es) auto

lemma getTypeAliases_no_exports:
  "getTypeAliases (filter (\<lambda>s. \<not> isExport s) ss) = getTypeAliases ss"
  by (induction ss rule: getTypeAliases.induct) auto

lemma getTypeAliases_arrangeExports: "getTypeAliases (arrangeExports env ss) = getTypeAliases ss"
proof -
  let ?P = "\<lambda>s. \<not> isExport s"
  have "getTypeAliases (arrangeExports env ss) =
      getTypeAliases (takeWhile ?P ss) @ getTypeAliases (dropWhile ?P ss)"
    by (simp add: arrangeExports_def getTypeAliases_append getTypeAliases_exports
        getTypeAliases_no_exports)
  also have "\<dots> = getTypeAliases (takeWhile ?P ss @ dropWhile ?P ss)"
    by (simp only: getTypeAliases_append)
  finally show ?thesis by simp
qed

lemma getExportDeclarations_exports: "getExportDeclarations (map ExportDeclaration es) = es"
  by (induction es) auto

lemma getExportDeclarations_arrangeExports:
  "getExportDeclarations (arrangeExports env ss) =
     sortBy (exportBefore env) (getExportDeclarations ss)"
proof -
  let ?P = "\<lambda>s. \<not> isExport s"
  have a: "getExportDeclarations (takeWhile ?P ss) = []"
    by (rule getExportDeclarations_none) (auto dest: set_takeWhileD)
  have b: "getExportDeclarations (filter ?P (dropWhile ?P ss)) = []"
    by (rule getExportDeclarations_none) simp
  show ?thesis
    by (simp add: arrangeExports_def getExportDeclarations_append a b
        getExportDeclarations_exports)
qed

lemma getInterfaces_othersOf: "getInterfaces (othersOf ss) = getInterfaces ss"
  by (induction ss rule: getInterfaces.induct) (auto simp: othersOf_def)

lemma declaredNames_othersOf: "declaredNames (othersOf ss) = declaredNames ss"
  by (induction ss rule: declaredNames.induct) (auto simp: othersOf_def)


lemma fold_addIndexEntry:
  "fold (addIndexEntry env) files (f, cms) = (g, cms') \<Longrightarrow>
     cms' = cms @ map (moduleName env) files \<and> baseName g = baseName f \<and>
     othersOf (statements g) =
       othersOf (statements f) @ map ExportDeclaration (concat (map (indexExports env) files))"
proof (induction files arbitrary: f cms)
  case Nil
  then show ?case by simp
next
  case (Cons n files)
  obtain f1 cms1 where step: "addIndexEntry env n (f, cms) = (f1, cms1)"
    by (cases "addIndexEntry env n (f, cms)")
  then have s1: "cms1 = cms @ [moduleName env n]" "baseName f1 = baseName f"
    "othersOf (statements f1) = othersOf (statements f) @ map ExportDeclaration (indexExports env n)"
    by (auto simp: addIndexEntry_def Let_def addExportDeclaration_def addImportDeclaration_def
        othersOf_append othersOf_insertImport othersOf_Cons othersOf_Nil indexExports_def)
  from Cons.prems step have "fold (addIndexEntry env) files (f1, cms1) = (g, cms')" by simp
  from Cons.IH [OF this] s1 show ?case by simp
qed

lemma indexModule_props:
  "baseName (indexModule env files) = ''index''"
  "getTypeAliases (statements (indexModule env files)) =
     [\<lparr>alias_name = ''CMSEntries'', alias_exported = True,
       alias_type = renderUnionType env (map (moduleName env) files)\<rparr>,
      \<lparr>alias_name = ''CMSManagementEntries'', alias_exported = True,
       alias_type = renderUnionType env
         (map (\<lambda>name. renderGenericType env ''CMSManagementEntry'' name)
            (map (moduleName env) files))\<rparr>]"
  "getExportDeclarations (statements (indexModule env files)) =
     sortBy (exportBefore env) (concat (map (indexExports env) files))"
proof -
  let ?i1 = "addImportDeclaration
                 \<lparr>moduleSpecifier = ''@src/types/contentful/static'',
                  namedImports = [''CMSManagementEntry''],
                  namespaceImport = None, defaultImport = None, isTypeOnly = False\<rparr>
                 \<lparr>baseName = ''index'', statements = []\<rparr>"
  obtain i2 cms where f: "fold (addIndexEntry env) files (?i1, []) = (i2, cms)"
    by (cases "fold (addIndexEntry env) files (?i1, [])")
  from fold_addIndexEntry [OF f]
  have cms: "cms = map (moduleName env) files" and bn: "baseName i2 = ''index''"
    and oth: "othersOf (statements i2) = map ExportDeclaration (concat (map (indexExports env) files))"
    by (simp_all add: addImportDeclaration_def othersOf_Cons othersOf_Nil)
  let ?aliases = "[TypeAlias \<lparr>alias_name = ''CMSEntries'', alias_exported = True,
         alias_type = renderUnionType env cms\<rparr>,
       TypeAlias \<lparr>alias_name = ''CMSManagementEntries'', alias_exported = True,
         alias_type = renderUnionType env
           (map (\<lambda>name. renderGenericType env ''CMSManagementEntry'' name) cms)\<rparr>]"
  have oth5: "othersOf (statements (indexModule env files)) =
      arrangeExports env (othersOf (statements i2) @ ?aliases)"
    by (simp add: indexModule_def f Let_def others_organizeImports addTypeAlias_def
        othersOf_append othersOf_Cons othersOf_Nil)
  show "baseName (indexModule env files) = ''index''"
    by (simp add: indexModule_def f bn Let_def baseName_organizeImports addTypeAlias_def)
  have "getTypeAliases (statements (indexModule env files)) =
      getTypeAliases (othersOf (statements (indexModule env files)))"
    by (simp add: getTypeAliases_othersOf)
  also have "\<dots> = getTypeAliases (othersOf (statements i2) @ ?aliases)"
    by (simp only: oth5 getTypeAliases_arrangeExports)
  also have "\<dots> = [\<lparr>alias_name = ''CMSEntries'', alias_exported = True,
       alias_type = renderUnionType env (map (moduleName env) files)\<rparr>,
      \<lparr>alias_name = ''CMSManagementEntries'', alias_exported = True,
       alias_type = renderUnionType env
         (map (\<lambda>name. renderGenericType env ''CMSManagementEntry'' name)
            (map (moduleName env) files))\<rparr>]"
    by (simp add: oth cms getTypeAliases_append getTypeAliases_exports)
  finally show "getTypeAliases (statements (indexModule env files)) =
     [\<lparr>alias_name = ''CMSEntries'', alias_exported = True,
       alias_type = renderUnionType env (map (moduleName env) files)\<rparr>,
      \<lparr>alias_name = ''CMSManagementEntries'', alias_exported = True,
       alias_type = renderUnionType env
         (map (\<lambda>name. renderGenericType env ''CMSManagementEntry'' name)
            (map (moduleName env) files))\<rparr>]" .
  have "getExportDeclarations (statements (indexModule env files)) =
      getExportDeclarations (othersOf (statements (indexModule env files)))"
    by (simp add: getExportDeclarations_othersOf)
  also have "\<dots> = sortBy (exportBefore env)
      (getExportDeclarations (othersOf (statements i2) @ ?aliases))"
    by (simp only: oth5 getExportDeclarations_arrangeExports)
  also have "getExportDeclarations (othersOf (statements i2) @ ?aliases) =
      concat (map (indexExports env) files)"
    by (simp add: oth getExportDeclarations_append getExportDeclarations_exports)
  finally show "getExportDeclarations (statements (indexModule env files)) =
     sortBy (exportBefore env) (concat (map (indexExports env) files))" .
qed


lemma walk_throws:
  "\<exists>c\<in>set cs. \<not> mergeable c \<Longrightarrow>
   \<exists>c st'. \<not> mergeable c \<and> c \<in> set cs \<and>
     forEachStructureChild cs st = (st', Some (UnsupportedDeclarationKindError (kindName c)))"
proof (induction cs arbitrary: st)
  case Nil
  then show ?case by simp
next
  case (Cons c cs)
  show ?case
  proof (cases "mergeable c")
    case False
    then have "forEachStructureChild (c # cs) st =
        (st, Some (UnsupportedDeclarationKindError (kindName c)))"
      by (cases c) simp_all
    with False show ?thesis by (intro exI [of _ c] exI [of _ st]) simp
  next
    case True
    with Cons.prems have "\<exists>c\<in>set cs. \<not> mergeable c" by auto
    from Cons.IH [OF this]
    have ih: "\<And>st. \<exists>d st'. \<not> mergeable d \<and> d \<in> set cs \<and>
       forEachStructureChild cs st = (st', Some (UnsupportedDeclarationKindError (kindName d)))" .
    from True show ?thesis
    proof (cases c)
      case (ImportDeclaration d)
      from ih [of "st\<lparr>imports_acc := imports_acc st @ [d]\<rparr>"] ImportDeclaration
      show ?thesis by auto
    next
      case (Interface i)
      from ih [of "st\<lparr>types_acc := types_acc st @ [iface_name i],
           mergeTarget := addInterface i (mergeTarget st)\<rparr>"] Interface
      show ?thesis by auto
    next
      case (TypeAlias t)
      from ih [of "st\<lparr>types_acc := types_acc st @ [alias_name t],
           mergeTarget := addTypeAlias t (mergeTarget st)\<rparr>"] TypeAlias
      show ?thesis by auto
    qed simp_all
  qed
qed

lemma walk_baseName:
  "baseName (mergeTarget (fst (forEachStructureChild cs st))) = baseName (mergeTarget st)"
  by (induction cs st rule: forEachStructureChild.induct)
    (simp_all add: addInterface_def addTypeAlias_def)




lemma baseName_fold_pending:
  "baseName (fold (\<lambda>importD m. if P importD then m else addImportDeclaration importD m) ds m)
     = baseName m"
  by (induction ds arbitrary: m) (simp_all add: baseName_addImportDeclaration)

section \<open>Lemmas: the project\<close>

lemma find_append:
  "find P (xs @ ys) = (case find P xs of None \<Rightarrow> find P ys | Some x \<Rightarrow> Some x)"
  by (induction xs) simp_all

lemma find_take_drop:
  "\<not> P y \<Longrightarrow> find P (take k xs @ [y] @ drop k xs) = find P xs"
proof -
  assume "\<not> P y"
  then have "find P (take k xs @ [y] @ drop k xs) =
      (case find P (take k xs) of None \<Rightarrow> find P (drop k xs) | Some x \<Rightarrow> Some x)"
    by (simp add: find_append split: option.splits)
  moreover have "find P xs =
      (case find P (take k xs) of None \<Rightarrow> find P (drop k xs) | Some x \<Rightarrow> Some x)"
    by (metis append_take_drop_id find_append)
  ultimately show ?thesis by simp
qed

lemma replace_absent:
  "\<forall>h\<in>set xs. baseName h \<noteq> n \<Longrightarrow> map (\<lambda>h. if baseName h = n then f else h) xs = xs"
  by (induction xs) simp_all

lemma putSourceFile_new:
  "\<not> list_ex (\<lambda>g. baseName g = baseName f) p \<Longrightarrow>
   putSourceFile env f p =
     take (enumerationIndex env (baseName f) (map baseName p)) p @ [f]
     @ drop (enumerationIndex env (baseName f) (map baseName p)) p"
  by (simp add: putSourceFile_def Let_def)

lemma putSourceFile_replace:
  "list_ex (\<lambda>g. baseName g = baseName f) p \<Longrightarrow>
   putSourceFile env f p = map (\<lambda>g. if baseName g = baseName f then f else g) p"
  by (simp add: putSourceFile_def)

lemma putSourceFile_twice:
  assumes "baseName f = baseName g"
  shows "putSourceFile env f (putSourceFile env g p) = putSourceFile env f p"
proof (cases "list_ex (\<lambda>h. baseName h = baseName g) p")
  case True
  have "map (\<lambda>h. if baseName h = baseName g then f else h)
          (map (\<lambda>h. if baseName h = baseName g then g else h) p) =
        map (\<lambda>h. if baseName h = baseName g then f else h) p"
    by (induction p) auto
  moreover have "list_ex (\<lambda>h. baseName h = baseName g)
          (map (\<lambda>h. if baseName h = baseName g then g else h) p)"
    using True by (induction p) auto
  ultimately show ?thesis using True assms by (simp add: putSourceFile_def)
next
  case False
  let ?k = "enumerationIndex env (baseName g) (map baseName p)"
  from False have absent: "\<forall>h\<in>set p. baseName h \<noteq> baseName g" by (simp add: list_ex_iff)
  then have "\<forall>h\<in>set (take ?k p). baseName h \<noteq> baseName g"
    and "\<forall>h\<in>set (drop ?k p). baseName h \<noteq> baseName g"
    by (auto dest: in_set_takeD in_set_dropD)
  then have "map (\<lambda>h. if baseName h = baseName g then f else h) (take ?k p @ [g] @ drop ?k p) =
      take ?k p @ [f] @ drop ?k p"
    by (simp add: replace_absent)
  moreover have "list_ex (\<lambda>h. baseName h = baseName g) (take ?k p @ [g] @ drop ?k p)"
    by simp
  ultimately have "putSourceFile env f (take ?k p @ [g] @ drop ?k p) = take ?k p @ [f] @ drop ?k p"
    using assms by (simp add: putSourceFile_def)
  with False assms show ?thesis by (simp add: putSourceFile_def Let_def)
qed

lemma set_putSourceFile: "set (putSourceFile env f p) \<subseteq> insert f (set p)"
  by (auto simp: putSourceFile_def Let_def dest: in_set_takeD in_set_dropD)

lemma putSourceFile_member: "f \<in> set (putSourceFile env f p)"
  by (auto simp: putSourceFile_def Let_def list_ex_iff)

lemma names_putSourceFile:
  "set (map baseName (putSourceFile env f p)) = insert (baseName f) (set (map baseName p))"
proof (cases "list_ex (\<lambda>g. baseName g = baseName f) p")
  case True
  have "map baseName (map (\<lambda>g. if baseName g = baseName f then f else g) p) = map baseName p"
    by (induction p) auto
  moreover from True have "baseName f \<in> set (map baseName p)" by (induction p) auto
  ultimately show ?thesis using True by (auto simp: putSourceFile_def)
next
  case False
  let ?k = "enumerationIndex env (baseName f) (map baseName p)"
  have "set (take ?k p) \<union> set (drop ?k p) = set p"
    by (metis append_take_drop_id set_append)
  then have "set (take ?k p @ [f] @ drop ?k p) = insert f (set p)" by auto
  then have "set (putSourceFile env f p) = insert f (set p)"
    by (simp only: putSourceFile_new [OF False])
  then show ?thesis by simp
qed

lemma filter_putSourceFile:
  "filter (\<lambda>g. baseName g \<noteq> baseName f) (putSourceFile env f p) =
     filter (\<lambda>g. baseName g \<noteq> baseName f) p"
proof (cases "list_ex (\<lambda>g. baseName g = baseName f) p")
  case True
  have "filter (\<lambda>g. baseName g \<noteq> baseName f)
          (map (\<lambda>g. if baseName g = baseName f then f else g) p) =
        filter (\<lambda>g. baseName g \<noteq> baseName f) p"
    by (induction p) auto
  with True show ?thesis by (simp add: putSourceFile_def)
next
  case False
  let ?k = "enumerationIndex env (baseName f) (map baseName p)"
  have "filter (\<lambda>g. baseName g \<noteq> baseName f) (take ?k p) @
        filter (\<lambda>g. baseName g \<noteq> baseName f) (drop ?k p) =
      filter (\<lambda>g. baseName g \<noteq> baseName f) p"
    by (metis append_take_drop_id filter_append)
  then have "filter (\<lambda>g. baseName g \<noteq> baseName f) (take ?k p @ [f] @ drop ?k p) =
      filter (\<lambda>g. baseName g \<noteq> baseName f) p"
    by simp
  then show ?thesis by (simp only: putSourceFile_new [OF False])
qed

lemma length_putSourceFile:
  "length (putSourceFile env f p) =
     (if list_ex (\<lambda>g. baseName g = baseName f) p then length p else Suc (length p))"
  by (auto simp: putSourceFile_def Let_def min_def)

lemma distinct_insert_between:
  "distinct (ys @ zs) \<Longrightarrow> a \<notin> set (ys @ zs) \<Longrightarrow> distinct (ys @ [a] @ zs)"
  by auto

lemma distinct_putSourceFile:
  assumes "distinct (map baseName p)"
  shows "distinct (map baseName (putSourceFile env f p))"
proof (cases "list_ex (\<lambda>g. baseName g = baseName f) p")
  case True
  have "map baseName (map (\<lambda>g. if baseName g = baseName f then f else g) p) = map baseName p"
    by (induction p) auto
  then have "map baseName (putSourceFile env f p) = map baseName p"
    by (simp only: putSourceFile_replace [OF True])
  with assms show ?thesis by (simp only:)
next
  case False
  let ?k = "enumerationIndex env (baseName f) (map baseName p)"
  let ?ns = "map baseName p"
  from False have notin: "baseName f \<notin> set ?ns" by (auto simp: list_ex_iff)
  have split: "take ?k ?ns @ drop ?k ?ns = ?ns" by simp
  have d: "distinct (take ?k ?ns @ drop ?k ?ns)" unfolding split by (rule assms)
  have n: "baseName f \<notin> set (take ?k ?ns @ drop ?k ?ns)" unfolding split by (rule notin)
  from d n have "distinct (take ?k ?ns @ [baseName f] @ drop ?k ?ns)"
    by (rule distinct_insert_between)
  moreover have "map baseName (take ?k p @ [f] @ drop ?k p) =
      take ?k ?ns @ [baseName f] @ drop ?k ?ns"
    by (simp add: take_map drop_map)
  ultimately show ?thesis by (simp only: putSourceFile_new [OF False])
qed

lemma moduleNamed_putSourceFile:
  "moduleNamed (putSourceFile env f p) n = (if n = baseName f then Some f else moduleNamed p n)"
proof (cases "list_ex (\<lambda>g. baseName g = baseName f) p")
  case True
  have other: "n \<noteq> baseName f \<Longrightarrow>
      find (\<lambda>h. baseName h = n) (map (\<lambda>g. if baseName g = baseName f then f else g) p) =
      find (\<lambda>h. baseName h = n) p"
    by (induction p) simp_all
  have same: "find (\<lambda>h. baseName h = baseName f)
      (map (\<lambda>g. if baseName g = baseName f then f else g) p) = Some f"
    using True by (induction p) auto
  from True other same show ?thesis
    by (simp add: moduleNamed_def getSourceFile_def getSourceFiles_def putSourceFile_def)
next
  case False
  let ?k = "enumerationIndex env (baseName f) (map baseName p)"
  from False have absent: "\<forall>h\<in>set p. baseName h \<noteq> baseName f" by (simp add: list_ex_iff)
  show ?thesis
  proof (cases "n = baseName f")
    case True
    from absent have "\<forall>h\<in>set (take ?k p). baseName h \<noteq> baseName f"
      by (auto dest: in_set_takeD)
    then have "find (\<lambda>h. baseName h = baseName f) (take ?k p) = None"
      by (simp add: find_None_iff)
    then have "find (\<lambda>h. baseName h = baseName f) (take ?k p @ [f] @ drop ?k p) = Some f"
      by (simp add: find_append)
    with True show ?thesis
      by (simp add: moduleNamed_def getSourceFile_def getSourceFiles_def
          putSourceFile_new [OF False])
  next
    case other: False
    then have "find (\<lambda>h. baseName h = n) (take ?k p @ [f] @ drop ?k p) =
        find (\<lambda>h. baseName h = n) p"
      by (intro find_take_drop) simp
    with other show ?thesis
      by (simp add: moduleNamed_def getSourceFile_def getSourceFiles_def
          putSourceFile_new [OF False])
  qed
qed

lemma moduleNamed_member: "moduleNamed p n = Some f \<Longrightarrow> f \<in> set p \<and> baseName f = n"
  by (auto simp: moduleNamed_def getSourceFile_def getSourceFiles_def find_Some_iff)

lemma moduleNamed_filter:
  "n \<noteq> k \<Longrightarrow> moduleNamed (filter (\<lambda>g. baseName g \<noteq> k) p) n = moduleNamed p n"
  unfolding moduleNamed_def getSourceFile_def getSourceFiles_def
  by (induction p) auto

lemma appendType_valid:
  assumes "sys_type (sys model) = ''ContentType''"
  shows "appendType env p model = (Inr (), putSourceFile env (entityModule env model) p)"
proof -
  have "putSourceFile env (entityModule env model)
          (putSourceFile env \<lparr>baseName = moduleName env (sys_id (sys model)), statements = []\<rparr> p)
        = putSourceFile env (entityModule env model) p"
    by (rule putSourceFile_twice) (simp add: baseName_entityModule)
  with assms show ?thesis
    by (simp add: appendType_def addFile_def createSourceFile_def Let_def entityModule_def
        createInterfaceDeclaration_def)
qed

lemma addIndexFile_eq:
  "addIndexFile env p =
     putSourceFile env
       (indexModule env (map baseName (filter (\<lambda>f. baseName f \<noteq> ''index'') p)))
       (filter (\<lambda>f. baseName f \<noteq> ''index'') p)"
proof -
  let ?q = "filter (\<lambda>f. baseName f \<noteq> ''index'') p"
  let ?p1 = "case getSourceFile (\<lambda>file. baseName file = ''index'') p of
                  Some oldIndexFile \<Rightarrow> removeSourceFile oldIndexFile p
                | None \<Rightarrow> p"
  have p1: "?p1 = ?q"
  proof (cases "find (\<lambda>file. baseName file = ''index'') p")
    case None
    then have "\<forall>f\<in>set p. baseName f \<noteq> ''index''" by (simp add: find_None_iff)
    then have "filter (\<lambda>f. baseName f \<noteq> ''index'') p = p" by (simp add: filter_id_conv)
    with None show ?thesis by (simp add: getSourceFile_def getSourceFiles_def)
  next
    case (Some old)
    then have "baseName old = ''index''" by (auto simp: find_Some_iff)
    with Some show ?thesis by (simp add: getSourceFile_def getSourceFiles_def removeSourceFile_def)
  qed
  have put: "putSourceFile env (indexModule env (map baseName ?q))
          (putSourceFile env \<lparr>baseName = ''index'', statements = []\<rparr> ?q)
        = putSourceFile env (indexModule env (map baseName ?q)) ?q"
    by (rule putSourceFile_twice) (simp add: indexModule_props)
  have "addIndexFile env p = putSourceFile env (indexModule env (map baseName ?q))
          (putSourceFile env \<lparr>baseName = ''index'', statements = []\<rparr> ?q)"
    unfolding addIndexFile_def p1
    by (simp add: Let_def addFile_def createSourceFile_def getSourceFiles_def indexModule_def
        case_prod_beta)
  with put show ?thesis by simp
qed

lemma names_filter:
  "map baseName (filter (\<lambda>f. baseName f \<noteq> k) p) = filter (\<lambda>n. n \<noteq> k) (map baseName p)"
  by (induction p) auto

lemma moduleNamed_index:
  "moduleNamed (addIndexFile env p) ''index'' =
     Some (indexModule env (filter (\<lambda>n. n \<noteq> ''index'') (map baseName p)))"
  by (simp add: addIndexFile_eq moduleNamed_putSourceFile indexModule_props names_filter)

lemma moduleNamed_addIndexFile_other:
  "n \<noteq> ''index'' \<Longrightarrow> moduleNamed (addIndexFile env p) n = moduleNamed p n"
  by (simp add: addIndexFile_eq moduleNamed_putSourceFile indexModule_props moduleNamed_filter)

lemma cmsEntriesType_addIndexFile:
  "cmsEntriesType (addIndexFile env p) =
     Some (renderUnionType env
       (map (moduleName env) (filter (\<lambda>n. n \<noteq> ''index'') (map baseName p))))"
  by (simp add: cmsEntriesType_def moduleNamed_index indexModule_props)

lemma entities_addIndexFile:
  "filter (\<lambda>n. n \<noteq> ''index'') (map baseName (addIndexFile env p)) =
     filter (\<lambda>n. n \<noteq> ''index'') (map baseName p)"
proof -
  let ?q = "filter (\<lambda>f. baseName f \<noteq> ''index'') p"
  let ?idx = "indexModule env (map baseName ?q)"
  have "filter (\<lambda>g. baseName g \<noteq> baseName ?idx) (putSourceFile env ?idx ?q) =
      filter (\<lambda>g. baseName g \<noteq> baseName ?idx) ?q"
    by (rule filter_putSourceFile)
  then have "filter (\<lambda>g. baseName g \<noteq> ''index'') (addIndexFile env p) = ?q"
    by (simp add: indexModule_props addIndexFile_eq)
  then have "map baseName (filter (\<lambda>g. baseName g \<noteq> ''index'') (addIndexFile env p)) =
      map baseName ?q"
    by simp
  then show ?thesis by (simp only: names_filter)
qed

lemma names_removeSourceFile:
  "map baseName (removeSourceFile f p) = filter (\<lambda>n. n \<noteq> baseName f) (map baseName p)"
  unfolding removeSourceFile_def by (induction p) auto

lemma write_files_eq:
  "write_files env p dir =
     (map (\<lambda>file. (resolve env dir (baseName file @ ''.ts''), file)) (addIndexFile env p),
      addIndexFile env p)"
  by (simp add: write_files_def Let_def getFilePath_def getSourceFiles_def)

section \<open>Lemmas: the merge, and appended descriptors\<close>

lemma mergeFile_sources:
  "concat (map statements (filter (\<lambda>sourceFile. baseName sourceFile \<noteq> n)
      (getSourceFiles (putSourceFile env \<lparr>baseName = n, statements = []\<rparr> p)))) =
   mergeChildren p n"
  using filter_putSourceFile [of "\<lparr>baseName = n, statements = []\<rparr>" env p]
  by (simp add: mergeChildren_def getSourceFiles_def)

lemma mergeFile_throws:
  assumes "\<exists>c\<in>set (mergeChildren p n). \<not> mergeable c"
  shows "\<exists>c. \<not> mergeable c \<and> c \<in> set (mergeChildren p n) \<and>
           fst (mergeFile env p n) = Inl (UnsupportedDeclarationKindError (kindName c))"
proof -
  let ?st0 = "\<lparr>imports_acc = [], types_acc = [], mergeTarget = \<lparr>baseName = n, statements = []\<rparr>\<rparr>"
  from walk_throws [OF assms, of ?st0] obtain c st' where c: "\<not> mergeable c"
    "c \<in> set (mergeChildren p n)"
    "forEachStructureChild (mergeChildren p n) ?st0 =
       (st', Some (UnsupportedDeclarationKindError (kindName c)))"
    by blast
  then have "fst (mergeFile env p n) = Inl (UnsupportedDeclarationKindError (kindName c))"
    by (simp add: mergeFile_def addFile_def createSourceFile_def Let_def mergeFile_sources)
  with c show ?thesis by blast
qed

lemma walk_throws_kind:
  assumes "\<exists>c\<in>set cs. \<not> mergeable c" and "\<forall>c\<in>set cs. \<not> mergeable c \<longrightarrow> kindName c = k"
  shows "snd (forEachStructureChild cs st) = Some (UnsupportedDeclarationKindError k)"
proof -
  from walk_throws [OF assms(1), of st] obtain c st' where
    "\<not> mergeable c" "c \<in> set cs"
    "forEachStructureChild cs st = (st', Some (UnsupportedDeclarationKindError (kindName c)))"
    by blast
  with assms(2) show ?thesis by simp
qed

lemma mergeFile_throws_kind:
  assumes "\<exists>c\<in>set (mergeChildren p n). \<not> mergeable c"
    and "\<forall>c\<in>set (mergeChildren p n). \<not> mergeable c \<longrightarrow> kindName c = k"
  shows "fst (mergeFile env p n) = Inl (UnsupportedDeclarationKindError k)"
proof -
  let ?st0 = "\<lparr>imports_acc = [], types_acc = [], mergeTarget = \<lparr>baseName = n, statements = []\<rparr>\<rparr>"
  obtain st thrown where w: "forEachStructureChild (mergeChildren p n) ?st0 = (st, thrown)"
    by (cases "forEachStructureChild (mergeChildren p n) ?st0")
  with walk_throws_kind [OF assms, of ?st0]
  have "thrown = Some (UnsupportedDeclarationKindError k)" by simp
  with w show ?thesis
    by (simp add: mergeFile_def addFile_def createSourceFile_def Let_def mergeFile_sources)
qed


text \<open>Whatever the outcome, the merge file is registered when \<^verbatim>\<open>mergeFile\<close> is left.\<close>

lemma mergeFile_project:
  "\<exists>m. baseName m = n \<and> snd (mergeFile env p n) = putSourceFile env m p"
proof -
  let ?e = "\<lparr>baseName = n, statements = []\<rparr>"
  let ?st0 = "\<lparr>imports_acc = [], types_acc = [], mergeTarget = ?e\<rparr>"
  obtain st thrown where w: "forEachStructureChild (mergeChildren p n) ?st0 = (st, thrown)"
    by (cases "forEachStructureChild (mergeChildren p n) ?st0")
  have bn: "baseName (mergeTarget st) = n"
    using walk_baseName [of "mergeChildren p n" ?st0] by (simp add: w)
  have "\<exists>m. baseName m = n \<and>
      snd (mergeFile env p n) = putSourceFile env m (putSourceFile env ?e p)"
  proof (cases thrown)
    case None
    let ?m = "organizeImports env (fold (\<lambda>importD m.
            if drop 2 (moduleSpecifier importD) \<in> set (types_acc st) then m
            else addImportDeclaration importD m) (imports_acc st) (mergeTarget st))"
    have "baseName ?m = n"
      by (simp add: baseName_organizeImports baseName_fold_pending bn)
    moreover have "snd (mergeFile env p n) = putSourceFile env ?m (putSourceFile env ?e p)"
      using None
      by (simp add: mergeFile_def addFile_def createSourceFile_def Let_def mergeFile_sources w)
    ultimately show ?thesis by blast
  next
    case (Some e)
    then have "snd (mergeFile env p n) =
        putSourceFile env (mergeTarget st) (putSourceFile env ?e p)"
      by (simp add: mergeFile_def addFile_def createSourceFile_def Let_def mergeFile_sources w)
    with bn show ?thesis by blast
  qed
  then obtain m where m: "baseName m = n"
    "snd (mergeFile env p n) = putSourceFile env m (putSourceFile env ?e p)"
    by blast
  have "putSourceFile env m (putSourceFile env ?e p) = putSourceFile env m p"
    by (rule putSourceFile_twice) (simp add: m(1))
  with m show ?thesis by auto
qed

lemma mergeChildren_member:
  "sf \<in> set (getSourceFiles p) \<Longrightarrow> baseName sf \<noteq> n \<Longrightarrow> c \<in> set (statements sf) \<Longrightarrow>
   c \<in> set (mergeChildren p n)"
  by (auto simp: mergeChildren_def)


lemma set_othersOf: "set (othersOf ss) = {s \<in> set ss. \<not> isImport s}"
  by (simp add: othersOf_def)

lemma mergeable_import: "isImport s \<Longrightarrow> mergeable s"
  by (cases s) simp_all

lemma entityModule_unmergeable:
  "c \<in> set (statements (entityModule env d)) \<Longrightarrow> \<not> mergeable c \<Longrightarrow>
   c = VariableStatement (typeIdStatement env (sys_id (sys d)))"
proof -
  assume c: "c \<in> set (statements (entityModule env d))" and n: "\<not> mergeable c"
  from n have "\<not> isImport c" by (auto dest: mergeable_import)
  with c have "c \<in> set (othersOf (statements (entityModule env d)))"
    by (simp add: set_othersOf)
  with n show ?thesis by (auto simp: others_entityModule)
qed

lemma entityModule_variable_statement:
  "VariableStatement (typeIdStatement env (sys_id (sys d))) \<in> set (statements (entityModule env d))"
proof -
  have "VariableStatement (typeIdStatement env (sys_id (sys d)))
      \<in> set (othersOf (statements (entityModule env d)))"
    by (simp add: others_entityModule)
  then show ?thesis by (simp add: set_othersOf)
qed

lemma appendTypes_snoc:
  "appendTypes env p (ds @ [d]) = snd (appendType env (appendTypes env p ds) d)"
  by (simp add: appendTypes_def)

lemma appendTypes_files:
  "\<forall>d\<in>set ds. sys_type (sys d) = ''ContentType'' \<Longrightarrow>
   set (appendTypes env p ds) \<subseteq> set p \<union> entityModule env ` set ds"
proof (induction ds rule: rev_induct)
  case Nil
  show ?case by (simp add: appendTypes_def)
next
  case (snoc d ds)
  then have valid: "sys_type (sys d) = ''ContentType''" by simp
  from snoc have ih: "set (appendTypes env p ds) \<subseteq> set p \<union> entityModule env ` set ds" by simp
  have "set (appendTypes env p (ds @ [d])) \<subseteq>
      insert (entityModule env d) (set (appendTypes env p ds))"
    by (simp add: appendTypes_snoc appendType_valid [OF valid] set_putSourceFile)
  with ih show ?case by auto
qed

lemma appendTypes_last:
  "\<forall>d\<in>set ds. sys_type (sys d) = ''ContentType'' \<Longrightarrow> ds \<noteq> [] \<Longrightarrow>
   entityModule env (last ds) \<in> set (appendTypes env p ds)"
proof (induction ds rule: rev_induct)
  case Nil
  then show ?case by simp
next
  case (snoc d ds)
  then have valid: "sys_type (sys d) = ''ContentType''" by simp
  show ?case
    by (simp add: appendTypes_snoc appendType_valid [OF valid] putSourceFile_member)
qed

lemma appendTypes_names:
  "\<forall>d\<in>set ds. sys_type (sys d) = ''ContentType'' \<Longrightarrow>
   set (map baseName (appendTypes env p ds)) =
     set (map baseName p) \<union> set (map (\<lambda>d. moduleName env (sys_id (sys d))) ds)"
proof (induction ds rule: rev_induct)
  case Nil
  show ?case by (simp add: appendTypes_def)
next
  case (snoc d ds)
  then have valid: "sys_type (sys d) = ''ContentType''" by simp
  from snoc have ih: "set (map baseName (appendTypes env p ds)) =
     set (map baseName p) \<union> set (map (\<lambda>d. moduleName env (sys_id (sys d))) ds)" by simp
  have "set (map baseName (appendTypes env p (ds @ [d]))) =
      insert (moduleName env (sys_id (sys d))) (set (map baseName (appendTypes env p ds)))"
    by (simp only: appendTypes_snoc appendType_valid [OF valid] snd_conv names_putSourceFile
        baseName_entityModule)
  with ih show ?case by auto
qed

lemma appendTypes_distinct:
  "\<forall>d\<in>set ds. sys_type (sys d) = ''ContentType'' \<Longrightarrow> distinct (map baseName p) \<Longrightarrow>
   distinct (map baseName (appendTypes env p ds))"
proof (induction ds rule: rev_induct)
  case Nil
  then show ?case by (simp add: appendTypes_def)
next
  case (snoc d ds)
  then have valid: "sys_type (sys d) = ''ContentType''" by simp
  from snoc have "distinct (map baseName (appendTypes env p ds))" by simp
  then show ?case
    by (simp only: appendTypes_snoc appendType_valid [OF valid] snd_conv distinct_putSourceFile)
qed

lemma appendTypes_lookup:
  "\<forall>d\<in>set ds. sys_type (sys d) = ''ContentType'' \<Longrightarrow>
   distinct (map (\<lambda>d. moduleName env (sys_id (sys d))) ds) \<Longrightarrow> d \<in> set ds \<Longrightarrow>
   moduleNamed (appendTypes env p ds) (moduleName env (sys_id (sys d))) = Some (entityModule env d)"
proof (induction ds rule: rev_induct)
  case Nil
  then show ?case by simp
next
  case (snoc e ds)
  then have valid: "sys_type (sys e) = ''ContentType''" by simp
  have look: "moduleNamed (appendTypes env p (ds @ [e])) n =
      (if n = moduleName env (sys_id (sys e)) then Some (entityModule env e)
       else moduleNamed (appendTypes env p ds) n)" for n
    by (simp add: appendTypes_snoc appendType_valid [OF valid] moduleNamed_putSourceFile
        baseName_entityModule)
  show ?case
  proof (cases "d = e")
    case True
    then show ?thesis by (simp add: look)
  next
    case False
    with snoc.prems have d: "d \<in> set ds" by simp
    from snoc.prems have "moduleName env (sys_id (sys e))
        \<notin> set (map (\<lambda>d. moduleName env (sys_id (sys d))) ds)"
      by simp
    with d have ne: "moduleName env (sys_id (sys d)) \<noteq> moduleName env (sys_id (sys e))"
      by (metis (mono_tags, lifting) image_eqI set_map)
    from snoc.prems d have "moduleNamed (appendTypes env p ds) (moduleName env (sys_id (sys d))) =
        Some (entityModule env d)"
      by (intro snoc.IH) simp_all
    with ne show ?thesis by (simp add: look)
  qed
qed

lemma set_putSourceFile_new:
  "\<not> list_ex (\<lambda>g. baseName g = baseName f) p \<Longrightarrow>
   set (putSourceFile env f p) = insert f (set p)"
proof -
  assume new: "\<not> list_ex (\<lambda>g. baseName g = baseName f) p"
  let ?k = "enumerationIndex env (baseName f) (map baseName p)"
  have "set (take ?k p) \<union> set (drop ?k p) = set p"
    by (metis append_take_drop_id set_append)
  then have "set (take ?k p @ [f] @ drop ?k p) = insert f (set p)" by auto
  then show ?thesis by (simp only: putSourceFile_new [OF new])
qed

text \<open>The helpers of the instance, and the projects of the examples.\<close>

lemma specHelpers_names:
  "moduleName specHelpers ''post'' = ''Post''"
  "moduleName specHelpers ''author'' = ''Author''"
  "moduleName specHelpers ''Post'' = ''Post''"
  "moduleName specHelpers ''Author'' = ''Author''"
  "moduleName specHelpers ''ContentTypes'' = ''ContentTypes''"
  by (simp_all add: specHelpers_def upperFirst_def toUpperCase_char_def)

lemma specHelpers_resolve: "resolve specHelpers dir rel = dir @ ''/'' @ rel"
  by (simp add: specHelpers_def)







lemma specHelpers_enumerationIndex:
  "enumerationIndex specHelpers name names =
     length (filter (\<lambda>n. nameBefore (n @ ''.ts'') (name @ ''.ts'')) names)"
  by (simp add: specHelpers_def)

lemma putSourceFile_specHelpers:
  "putSourceFile specHelpers f p =
     (if list_ex (\<lambda>g. baseName g = baseName f) p
      then map (\<lambda>g. if baseName g = baseName f then f else g) p
      else take (length (filter (\<lambda>n. nameBefore (n @ ''.ts'') (baseName f @ ''.ts''))
                   (map baseName p))) p
           @ [f]
           @ drop (length (filter (\<lambda>n. nameBefore (n @ ''.ts'') (baseName f @ ''.ts''))
                   (map baseName p))) p)"
  by (simp add: putSourceFile_def specHelpers_enumerationIndex Let_def)

lemma nameBefore_examples:
  "nameBefore ''Author.ts'' ''Post.ts''"
  "\<not> nameBefore ''Post.ts'' ''Author.ts''"
  "nameBefore ''index.ts'' ''Post.ts''"
  "\<not> nameBefore ''Post.ts'' ''index.ts''"
  "nameBefore ''Author.ts'' ''index.ts''"
  "\<not> nameBefore ''index.ts'' ''Author.ts''"
  "nameBefore ''ContentTypes.ts'' ''Post.ts''"
  "\<not> nameBefore ''Post.ts'' ''ContentTypes.ts''"
  "nameBefore ''ContentTypes.ts'' ''index.ts''"
  "\<not> nameBefore ''index.ts'' ''ContentTypes.ts''"
  by (simp_all add: nameBefore_def foldCase_def toUpperCase_char_def)

lemma example_post:
  "snd (appendType specHelpers newBuilder postType) = [entityModule specHelpers postType]"
proof -
  have v: "sys_type (sys postType) = ''ContentType''" by (simp add: postType_def)
  show ?thesis
    by (simp add: appendType_valid [OF v] newBuilder_def putSourceFile_specHelpers)
qed

lemma example_names:
  "baseName (entityModule specHelpers postType) = ''Post''"
  "baseName (entityModule specHelpers authorType) = ''Author''"
  by (simp_all add: baseName_entityModule postType_def authorType_def specHelpers_names)

lemma example_post_author:
  "appendTypes specHelpers newBuilder [postType, authorType] =
     [entityModule specHelpers authorType, entityModule specHelpers postType]"
proof -
  have v: "sys_type (sys postType) = ''ContentType''" "sys_type (sys authorType) = ''ContentType''"
    by (simp_all add: postType_def authorType_def)
  show ?thesis
    by (simp add: appendTypes_def appendType_valid v newBuilder_def putSourceFile_specHelpers
        example_names nameBefore_examples)
qed

section \<open>The index reflects the current modules (C1)\<close>

text \<open>
  Claim C1 says the members of the \<open>CMSEntries\<close> union stand in insertion order. They do
  not: the union follows the enumeration of the project, and the project of the library
  enumerates its files by file name. With the descriptor \<open>post\<close> appended before
  \<open>author\<close>, the rebuilt union is \<open>Author | Post\<close>, and not the union \<open>Post | Author\<close> of the
  module names in the order of the appends.
\<close>

theorem index_union_not_in_insertion_order:
  "cmsEntriesType (addIndexFile specHelpers
       (snd (appendType specHelpers (snd (appendType specHelpers newBuilder postType)) authorType)))
     = Some ''Author | Post''
   \<and> renderUnionType specHelpers
       [moduleName specHelpers (sys_id (sys postType)),
        moduleName specHelpers (sys_id (sys authorType))] = ''Post | Author''
   \<and> cmsEntriesType (addIndexFile specHelpers
       (snd (appendType specHelpers (snd (appendType specHelpers newBuilder postType)) authorType)))
     \<noteq> Some (renderUnionType specHelpers
         [moduleName specHelpers (sys_id (sys postType)),
          moduleName specHelpers (sys_id (sys authorType))])"
proof -
  let ?p = "snd (appendType specHelpers (snd (appendType specHelpers newBuilder postType))
      authorType)"
  have p: "?p = [entityModule specHelpers authorType, entityModule specHelpers postType]"
    using example_post_author by (simp add: appendTypes_def)
  have sorted: "renderUnionType specHelpers [''Author'', ''Post''] = ''Author | Post''"
    by (simp add: specHelpers_def)
  have a: "cmsEntriesType (addIndexFile specHelpers ?p) = Some ''Author | Post''"
    by (simp only: p cmsEntriesType_addIndexFile)
      (simp add: example_names specHelpers_names sorted)
  have b: "renderUnionType specHelpers
       [moduleName specHelpers (sys_id (sys postType)),
        moduleName specHelpers (sys_id (sys authorType))] = ''Post | Author''"
    by (simp add: postType_def authorType_def specHelpers_names)
      (simp add: specHelpers_def)
  have c: "cmsEntriesType (addIndexFile specHelpers ?p)
     \<noteq> Some (renderUnionType specHelpers
         [moduleName specHelpers (sys_id (sys postType)),
          moduleName specHelpers (sys_id (sys authorType))])"
    by (simp only: a b) simp
  show ?thesis by (intro conjI a b c)
qed

text \<open>
  Claim C1, amended. After \<^verbatim>\<open>addIndexFile\<close> has rebuilt the index, the type of the index
  module's \<open>CMSEntries\<close> alias is the union of the names \<open>moduleName n\<close>, one member for
  every module \<open>n\<close> of the project other than the index, in the order in which the project
  enumerates its modules (\<^verbatim>\<open>getSourceFiles\<close>). When a module is removed and the index is
  rebuilt, the union is the one of the modules that remain: no member is left for the
  removed one.
\<close>

theorem index_union_reflects_inventory:
  "cmsEntriesType (addIndexFile env p) =
     Some (renderUnionType env
       (map (moduleName env) (filter (\<lambda>n. n \<noteq> ''index'') (map baseName (getSourceFiles p)))))
   \<and> cmsEntriesType (addIndexFile env (removeSourceFile f (addIndexFile env p))) =
     Some (renderUnionType env
       (map (moduleName env)
          (filter (\<lambda>n. n \<noteq> ''index'' \<and> n \<noteq> baseName f) (map baseName (getSourceFiles p)))))"
proof -
  have "filter (\<lambda>n. n \<noteq> ''index'')
          (map baseName (removeSourceFile f (addIndexFile env p))) =
        filter (\<lambda>n. n \<noteq> baseName f)
          (filter (\<lambda>n. n \<noteq> ''index'') (map baseName (addIndexFile env p)))"
    by (simp add: names_removeSourceFile conj_commute)
  also have "\<dots> = filter (\<lambda>n. n \<noteq> baseName f) (filter (\<lambda>n. n \<noteq> ''index'') (map baseName p))"
    by (simp only: entities_addIndexFile)
  also have "\<dots> = filter (\<lambda>n. n \<noteq> ''index'' \<and> n \<noteq> baseName f) (map baseName p)"
    by (simp add: conj_commute)
  finally show ?thesis
    by (simp add: cmsEntriesType_addIndexFile getSourceFiles_def)
qed

text \<open>
  The spec's scenario: the project of the descriptors \<open>post\<close> and \<open>author\<close> enumerates
  the modules \<open>Author\<close> and \<open>Post\<close>, and the union is \<open>Author | Post\<close>; with the module
  \<open>Post\<close> removed, the rebuilt union is \<open>Author\<close>.
\<close>

theorem index_union_reflects_inventory_witness:
  "map baseName (getSourceFiles (appendTypes specHelpers newBuilder [postType, authorType]))
     = [''Author'', ''Post'']
   \<and> cmsEntriesType (addIndexFile specHelpers (appendTypes specHelpers newBuilder [postType, authorType]))
     = Some ''Author | Post''
   \<and> cmsEntriesType (addIndexFile specHelpers
        (removeSourceFile (entityModule specHelpers postType)
          (addIndexFile specHelpers (appendTypes specHelpers newBuilder [postType, authorType]))))
     = Some ''Author''"
proof -
  have names: "map baseName (getSourceFiles (appendTypes specHelpers newBuilder [postType, authorType]))
      = [''Author'', ''Post'']"
    by (simp add: example_post_author getSourceFiles_def example_names)
  have union: "renderUnionType specHelpers [''Author'', ''Post''] = ''Author | Post''"
    "renderUnionType specHelpers [''Author''] = ''Author''"
    by (simp_all add: specHelpers_def)
  from index_union_reflects_inventory [of specHelpers
        "appendTypes specHelpers newBuilder [postType, authorType]"
        "entityModule specHelpers postType"]
  show ?thesis
    by (simp add: names example_names specHelpers_names union)
qed

section \<open>Imports of merged names are dropped (C2)\<close>



section \<open>The merged text of appended descriptors (C3)\<close>

text \<open>
  Claim C3 expects the merged module of a builder filled from descriptors to hold the
  declarations of every descriptor. The builder does not get that far. Every module
  \<^verbatim>\<open>appendType\<close> builds carries the statement that declares the type-id constant, and the
  walk of \<^verbatim>\<open>mergeFile\<close> has no case for a statement of that kind. For every non-empty list
  of valid descriptors, none of them with the module name \<open>ContentTypes\<close>, \<^verbatim>\<open>toString\<close> on
  the builder they were appended to ends with the error for the kind
  \<open>VariableStatement\<close>, and no merged module is returned.
\<close>

theorem toString_throws_on_appended_types:
  assumes "\<forall>d\<in>set ds. sys_type (sys d) = ''ContentType''" and "ds \<noteq> []"
    and "\<forall>d\<in>set ds. moduleName env (sys_id (sys d)) \<noteq> ''ContentTypes''"
  shows "fst (toString env (appendTypes env newBuilder ds)) =
           Inl (UnsupportedDeclarationKindError ''VariableStatement'')"
proof -
  let ?p = "appendTypes env newBuilder ds"
  let ?cs = "mergeChildren ?p ''ContentTypes''"
  have files: "set ?p \<subseteq> entityModule env ` set ds"
    using appendTypes_files [OF assms(1), of env newBuilder] by (simp add: newBuilder_def)
  have "entityModule env (last ds) \<in> set ?p"
    using assms(1,2) by (rule appendTypes_last)
  moreover have "baseName (entityModule env (last ds)) \<noteq> ''ContentTypes''"
    using assms(2,3) by (simp add: baseName_entityModule)
  ultimately have "VariableStatement (typeIdStatement env (sys_id (sys (last ds)))) \<in> set ?cs"
    by (intro mergeChildren_member [where sf = "entityModule env (last ds)"])
      (simp_all add: getSourceFiles_def entityModule_variable_statement)
  then have ex: "\<exists>c\<in>set ?cs. \<not> mergeable c" by force
  have kinds: "\<forall>c\<in>set ?cs. \<not> mergeable c \<longrightarrow> kindName c = ''VariableStatement''"
  proof (intro ballI impI)
    fix c assume c: "c \<in> set ?cs" and n: "\<not> mergeable c"
    from c obtain sf where sf: "sf \<in> set ?p" "c \<in> set (statements sf)"
      by (auto simp: mergeChildren_def getSourceFiles_def)
    with files obtain d where "sf = entityModule env d" by blast
    with sf n have "c = VariableStatement (typeIdStatement env (sys_id (sys d)))"
      by (auto dest: entityModule_unmergeable)
    then show "kindName c = ''VariableStatement''" by simp
  qed
  from mergeFile_throws_kind [OF ex kinds] show ?thesis by (simp add: toString_def)
qed

text \<open>The descriptors \<open>post\<close> and \<open>author\<close> appended to a new builder.\<close>

theorem toString_throws_on_appended_types_witness:
  "sys_type (sys postType) = ''ContentType'' \<and> sys_type (sys authorType) = ''ContentType''
   \<and> [postType, authorType] \<noteq> []
   \<and> moduleName specHelpers (sys_id (sys postType)) \<noteq> ''ContentTypes''
   \<and> moduleName specHelpers (sys_id (sys authorType)) \<noteq> ''ContentTypes''
   \<and> fst (toString specHelpers (appendTypes specHelpers newBuilder [postType, authorType])) =
           Inl (UnsupportedDeclarationKindError ''VariableStatement'')"
proof -
  have v: "sys_type (sys postType) = ''ContentType''" "sys_type (sys authorType) = ''ContentType''"
    by (simp_all add: postType_def authorType_def)
  have n: "moduleName specHelpers (sys_id (sys postType)) \<noteq> ''ContentTypes''"
    "moduleName specHelpers (sys_id (sys authorType)) \<noteq> ''ContentTypes''"
    by (simp_all add: postType_def authorType_def specHelpers_names)
  from toString_throws_on_appended_types [of "[postType, authorType]" specHelpers] v n
  show ?thesis by simp
qed

section \<open>A descriptor that is not a content type (C4)\<close>

text \<open>
  Claim C4. For a descriptor whose \<^verbatim>\<open>sys.type\<close> is not \<open>ContentType\<close>, \<^verbatim>\<open>appendType\<close> fails
  with InvalidDescriptorError and leaves the project exactly as it was: the files it
  enumerates are the same, and a descriptor appended afterwards gives what it would have
  given without the failed call.
\<close>

theorem appendType_rejects_non_content_type:
  assumes "sys_type (sys model) \<noteq> ''ContentType''"
  shows "appendType env p model = (Inl InvalidDescriptorError, p)
     \<and> getSourceFiles (snd (appendType env p model)) = getSourceFiles p
     \<and> appendType env (snd (appendType env p model)) d = appendType env p d"
proof -
  from assms have refused: "appendType env p model = (Inl InvalidDescriptorError, p)"
    by (simp add: appendType_def)
  then have "snd (appendType env p model) = p" by simp
  with refused show ?thesis by simp
qed

text \<open>
  The spec's scenario: a descriptor of type \<open>Asset\<close> given to a builder that already holds
  the module of \<open>post\<close>, with \<open>author\<close> appended afterwards.
\<close>

theorem appendType_rejects_non_content_type_witness:
  "sys_type (sys assetType) \<noteq> ''ContentType''
   \<and> appendType specHelpers (snd (appendType specHelpers newBuilder postType)) assetType =
       (Inl InvalidDescriptorError, snd (appendType specHelpers newBuilder postType))
   \<and> getSourceFiles (snd (appendType specHelpers
         (snd (appendType specHelpers newBuilder postType)) assetType)) =
       getSourceFiles (snd (appendType specHelpers newBuilder postType))
   \<and> appendType specHelpers
         (snd (appendType specHelpers (snd (appendType specHelpers newBuilder postType)) assetType))
         authorType =
       appendType specHelpers (snd (appendType specHelpers newBuilder postType)) authorType"
proof -
  have a: "sys_type (sys assetType) \<noteq> ''ContentType''" by (simp add: assetType_def)
  from appendType_rejects_non_content_type
    [OF a, of specHelpers "snd (appendType specHelpers newBuilder postType)" authorType] a
  show ?thesis by (intro conjI) simp_all
qed

section \<open>The files written to disk (C5)\<close>

text \<open>
  Claim C5 says each entity's file is named by the entity's raw identifier. It is not:
  \<^verbatim>\<open>appendType\<close> creates the file under \<open>moduleName\<close> of the identifier. With the naming of
  the spec, the descriptor \<open>post\<close> is written to \<open>Post.ts\<close>, and nothing is written to
  \<open>post.ts\<close>.
\<close>

theorem written_file_not_named_by_raw_identifier:
  "sys_id (sys postType) = ''post''
   \<and> set (map fst (fst (write_files specHelpers
          (snd (appendType specHelpers newBuilder postType)) ''/out'')))
       = {''/out/Post.ts'', ''/out/index.ts''}
   \<and> resolve specHelpers ''/out'' (sys_id (sys postType) @ ''.ts'')
       \<notin> set (map fst (fst (write_files specHelpers
               (snd (appendType specHelpers newBuilder postType)) ''/out'')))"
proof -
  have idx: "addIndexFile specHelpers [entityModule specHelpers postType] =
      [indexModule specHelpers [''Post''], entityModule specHelpers postType]"
    by (simp only: addIndexFile_eq)
      (simp add: example_names putSourceFile_specHelpers indexModule_props nameBefore_examples)
  have paths: "set (map fst (fst (write_files specHelpers
      (snd (appendType specHelpers newBuilder postType)) ''/out'')))
       = {''/out/Post.ts'', ''/out/index.ts''}"
    by (simp only: example_post write_files_eq idx fst_conv)
      (simp add: example_names indexModule_props specHelpers_resolve insert_commute)
  have id: "sys_id (sys postType) = ''post''" by (simp add: postType_def)
  have "resolve specHelpers ''/out'' (sys_id (sys postType) @ ''.ts'') = ''/out/post.ts''"
    by (simp add: id specHelpers_resolve)
  then have "resolve specHelpers ''/out'' (sys_id (sys postType) @ ''.ts'')
       \<notin> set (map fst (fst (write_files specHelpers
               (snd (appendType specHelpers newBuilder postType)) ''/out'')))"
    by (simp only: paths) simp
  with id paths show ?thesis by (intro conjI)
qed

text \<open>
  Claim C5, amended. For valid descriptors with pairwise distinct module names, none of
  them \<open>index\<close>, appended to a new builder, \<^verbatim>\<open>write\<close> issues one file per descriptor, named
  by \<open>moduleName\<close> of the identifier and holding the descriptor's module, and the index
  file, which holds the exports of every entity module; it issues no other file, so a
  file \<open>ContentTypes\<close> is among them only as the module of a descriptor of that module
  name (the merge not having run).
\<close>

theorem written_files_named_by_module_name:
  assumes "\<forall>d\<in>set ds. sys_type (sys d) = ''ContentType''"
    and "distinct (map (\<lambda>d. moduleName env (sys_id (sys d))) ds)"
    and "''index'' \<notin> set (map (\<lambda>d. moduleName env (sys_id (sys d))) ds)"
  shows "set (fst (write_files env (appendTypes env newBuilder ds) dir)) =
           (\<lambda>d. (resolve env dir (moduleName env (sys_id (sys d)) @ ''.ts''), entityModule env d))
             ` set ds
           \<union> {(resolve env dir ''index.ts'',
                indexModule env (map baseName (getSourceFiles (appendTypes env newBuilder ds))))}
     \<and> length (fst (write_files env (appendTypes env newBuilder ds) dir)) = length ds + 1
     \<and> set (getExportDeclarations (statements
           (indexModule env (map baseName (getSourceFiles (appendTypes env newBuilder ds)))))) =
         (\<Union>d\<in>set ds. set (indexExports env (moduleName env (sys_id (sys d)))))
     \<and> (''ContentTypes'' \<in> set (map (\<lambda>w. baseName (snd w))
             (fst (write_files env (appendTypes env newBuilder ds) dir))))
         = (''ContentTypes'' \<in> set (map (\<lambda>d. moduleName env (sys_id (sys d))) ds))"
proof -
  let ?name = "\<lambda>d. moduleName env (sys_id (sys d))"
  let ?p = "appendTypes env newBuilder ds"
  let ?idx = "indexModule env (map baseName ?p)"
  let ?w = "\<lambda>file. (resolve env dir (baseName file @ ''.ts''), file)"
  have names: "set (map baseName ?p) = set (map ?name ds)"
    using appendTypes_names [OF assms(1), of env newBuilder] by (simp add: newBuilder_def)
  have dist: "distinct (map baseName ?p)"
    using appendTypes_distinct [OF assms(1), of newBuilder env] by (simp add: newBuilder_def)
  have files: "set ?p = entityModule env ` set ds"
  proof
    show "set ?p \<subseteq> entityModule env ` set ds"
      using appendTypes_files [OF assms(1), of env newBuilder] by (simp add: newBuilder_def)
    show "entityModule env ` set ds \<subseteq> set ?p"
    proof
      fix f assume "f \<in> entityModule env ` set ds"
      then obtain d where d: "d \<in> set ds" "f = entityModule env d" by blast
      from appendTypes_lookup [OF assms(1,2) d(1), of newBuilder]
      have "moduleNamed ?p (?name d) = Some (entityModule env d)" .
      with d(2) show "f \<in> set ?p" by (auto dest: moduleNamed_member)
    qed
  qed
  have len: "length ?p = length ds"
  proof -
    have "length ?p = card (set (map baseName ?p))"
      using dist by (metis distinct_card length_map)
    also have "\<dots> = card (set (map ?name ds))" by (simp only: names)
    also have "\<dots> = length ds" using assms(2) by (metis distinct_card length_map)
    finally show ?thesis .
  qed
  from assms(3) names have "''index'' \<notin> set (map baseName ?p)" by simp
  then have noindex: "\<forall>f\<in>set ?p. baseName f \<noteq> ''index''" by (metis image_eqI set_map)
  then have keep: "filter (\<lambda>f. baseName f \<noteq> ''index'') ?p = ?p" by (simp add: filter_id_conv)
  have rebuilt: "addIndexFile env ?p = putSourceFile env ?idx ?p"
    by (simp only: addIndexFile_eq keep)
  from noindex have new: "\<not> list_ex (\<lambda>g. baseName g = baseName ?idx) ?p"
    by (simp add: indexModule_props list_ex_iff)
  have all: "set (addIndexFile env ?p) = insert ?idx (entityModule env ` set ds)"
    by (simp only: rebuilt set_putSourceFile_new [OF new] files)
  have count: "length (addIndexFile env ?p) = length ds + 1"
    using new by (simp only: rebuilt length_putSourceFile len) simp
  have written: "fst (write_files env ?p dir) = map ?w (addIndexFile env ?p)"
    by (simp add: write_files_eq)
  have a: "set (fst (write_files env ?p dir)) =
      (\<lambda>d. (resolve env dir (?name d @ ''.ts''), entityModule env d)) ` set ds
      \<union> {(resolve env dir ''index.ts'', ?idx)}"
    by (simp only: written set_map all)
      (auto simp: baseName_entityModule indexModule_props image_iff)
  have b: "length (fst (write_files env ?p dir)) = length ds + 1"
    by (simp only: written length_map count)
  have c: "set (getExportDeclarations (statements ?idx)) =
      (\<Union>d\<in>set ds. set (indexExports env (?name d)))"
  proof -
    have "set (getExportDeclarations (statements ?idx)) =
        (\<Union>n\<in>set (map baseName ?p). set (indexExports env n))"
      by (simp add: indexModule_props set_sortBy)
    then show ?thesis by (simp only: names) simp
  qed
  have d: "(''ContentTypes'' \<in> set (map (\<lambda>w. baseName (snd w)) (fst (write_files env ?p dir))))
      = (''ContentTypes'' \<in> set (map ?name ds))"
  proof -
    have "set (map (\<lambda>w. baseName (snd w)) (fst (write_files env ?p dir))) =
        baseName ` set (addIndexFile env ?p)"
      by (simp add: written o_def)
    also have "\<dots> = insert ''index'' (set (map ?name ds))"
      by (simp only: all) (simp add: indexModule_props image_image baseName_entityModule)
    finally show ?thesis by simp
  qed
  show ?thesis
    by (simp only: getSourceFiles_def) (intro conjI a b c d)
qed

text \<open>The spec's scenario: \<open>post\<close> and \<open>author\<close> are written as \<open>Post.ts\<close> and \<open>Author.ts\<close>.\<close>

theorem written_files_named_by_module_name_witness:
  "sys_type (sys postType) = ''ContentType'' \<and> sys_type (sys authorType) = ''ContentType''
   \<and> distinct (map (\<lambda>d. moduleName specHelpers (sys_id (sys d))) [postType, authorType])
   \<and> ''index'' \<notin> set (map (\<lambda>d. moduleName specHelpers (sys_id (sys d))) [postType, authorType])
   \<and> set (map fst (fst (write_files specHelpers
         (appendTypes specHelpers newBuilder [postType, authorType]) ''/out'')))
       = {''/out/Post.ts'', ''/out/Author.ts'', ''/out/index.ts''}
   \<and> length (fst (write_files specHelpers
         (appendTypes specHelpers newBuilder [postType, authorType]) ''/out'')) = 3
   \<and> ''ContentTypes'' \<notin> set (map (\<lambda>w. baseName (snd w))
         (fst (write_files specHelpers
            (appendTypes specHelpers newBuilder [postType, authorType]) ''/out'')))"
proof -
  let ?p = "appendTypes specHelpers newBuilder [postType, authorType]"
  have v: "\<forall>d\<in>set [postType, authorType]. sys_type (sys d) = ''ContentType''"
    by (simp add: postType_def authorType_def)
  have names: "map (\<lambda>d. moduleName specHelpers (sys_id (sys d))) [postType, authorType]
      = [''Post'', ''Author'']"
    by (simp add: postType_def authorType_def specHelpers_names)
  have dist: "distinct (map (\<lambda>d. moduleName specHelpers (sys_id (sys d))) [postType, authorType])"
    by (simp only: names) simp
  have noindex: "''index'' \<notin> set (map (\<lambda>d. moduleName specHelpers (sys_id (sys d)))
      [postType, authorType])"
    by (simp only: names) simp
  note inst = written_files_named_by_module_name [OF v dist noindex, of "''/out''"]
  from inst have "set (fst (write_files specHelpers ?p ''/out'')) =
      (\<lambda>d. (resolve specHelpers ''/out'' (moduleName specHelpers (sys_id (sys d)) @ ''.ts''),
             entityModule specHelpers d)) ` set [postType, authorType]
      \<union> {(resolve specHelpers ''/out'' ''index.ts'',
           indexModule specHelpers (map baseName (getSourceFiles ?p)))}"
    by blast
  then have "fst ` set (fst (write_files specHelpers ?p ''/out'')) =
      {''/out/Post.ts'', ''/out/Author.ts'', ''/out/index.ts''}"
    by (simp only:) (simp add: postType_def authorType_def specHelpers_names
        specHelpers_resolve insert_commute)
  then have paths: "set (map fst (fst (write_files specHelpers ?p ''/out''))) =
      {''/out/Post.ts'', ''/out/Author.ts'', ''/out/index.ts''}"
    by simp
  from inst have count: "length (fst (write_files specHelpers ?p ''/out'')) = 3"
    by simp
  from inst have "(''ContentTypes'' \<in> set (map (\<lambda>w. baseName (snd w))
        (fst (write_files specHelpers ?p ''/out''))))
      = (''ContentTypes'' \<in> set (map (\<lambda>d. moduleName specHelpers (sys_id (sys d)))
          [postType, authorType]))"
    by blast
  then have nomerge: "''ContentTypes'' \<notin> set (map (\<lambda>w. baseName (snd w))
        (fst (write_files specHelpers ?p ''/out'')))"
    by (simp only: names) simp
  from v have v': "sys_type (sys postType) = ''ContentType''"
    "sys_type (sys authorType) = ''ContentType''" by simp_all
  show ?thesis by (intro conjI v' dist noindex paths count nomerge)
qed

section \<open>Optional properties (C6)\<close>

text \<open>
  Claim C6. The module \<^verbatim>\<open>appendType\<close> stores for a valid descriptor has exactly one
  interface, named \<open>moduleFieldsName\<close> of the identifier, with one property per field of
  the descriptor, in order and under the field's id; the property of a field carries the
  question token if and only if the field is omitted or not required.
\<close>

theorem property_optional_iff_omitted_or_not_required:
  assumes "sys_type (sys model) = ''ContentType''"
  shows "\<exists>m iface.
     moduleNamed (snd (appendType env p model)) (moduleName env (sys_id (sys model))) = Some m \<and>
     getInterfaces (statements m) = [iface] \<and>
     iface_name iface = moduleFieldsName env (sys_id (sys model)) \<and>
     map prop_name (properties iface) = map field_id (ct_fields model) \<and>
     map hasQuestionToken (properties iface) =
       map (\<lambda>field. omitted field \<or> \<not> required field) (ct_fields model)"
proof -
  let ?m = "entityModule env model"
  have m: "moduleNamed (snd (appendType env p model)) (moduleName env (sys_id (sys model))) = Some ?m"
    by (simp add: appendType_valid [OF assms] moduleNamed_putSourceFile baseName_entityModule)
  have "getInterfaces (statements ?m) = getInterfaces (othersOf (statements ?m))"
    by (simp add: getInterfaces_othersOf)
  then have i: "getInterfaces (statements ?m) =
      [\<lparr>iface_name = moduleFieldsName env (sys_id (sys model)), iface_exported = True,
        properties = map (propertyOf env) (ct_fields model)\<rparr>]"
    by (simp add: others_entityModule)
  show ?thesis
    by (intro exI conjI, rule m, rule i) (simp_all add: propertyOf_def o_def)
qed

text \<open>
  The field \<open>bio\<close> of \<open>author\<close> is neither required nor omitted: its property is optional.
\<close>

theorem property_optional_iff_omitted_or_not_required_witness:
  "sys_type (sys authorType) = ''ContentType'' \<and>
   (\<exists>m iface.
     moduleNamed (snd (appendType specHelpers newBuilder authorType)) ''Author'' = Some m \<and>
     getInterfaces (statements m) = [iface] \<and>
     iface_name iface = ''AuthorFields'' \<and>
     map prop_name (properties iface) = [''bio''] \<and>
     map hasQuestionToken (properties iface) = [True])"
  using property_optional_iff_omitted_or_not_required [of authorType specHelpers newBuilder]
  by (simp add: authorType_def specHelpers_def upperFirst_def toUpperCase_char_def)

section \<open>Appending a descriptor twice (C7)\<close>

text \<open>
  Claim C7. Appending a valid descriptor a second time to the same builder changes
  nothing: the project is the one after the first call, and the module under the
  descriptor's module name is in both cases the module built from the descriptor alone.
  The text of a module is a function of the module, so equal modules have the same
  text, byte for byte.
\<close>

theorem appendType_twice_same_module:
  assumes "sys_type (sys d) = ''ContentType''"
  shows "snd (appendType env (snd (appendType env p d)) d) = snd (appendType env p d)
     \<and> moduleNamed (snd (appendType env (snd (appendType env p d)) d))
          (moduleName env (sys_id (sys d))) = Some (entityModule env d)
     \<and> moduleNamed (snd (appendType env p d)) (moduleName env (sys_id (sys d))) =
          Some (entityModule env d)"
proof -
  have "putSourceFile env (entityModule env d) (putSourceFile env (entityModule env d) p) =
        putSourceFile env (entityModule env d) p"
    by (rule putSourceFile_twice) simp
  then show ?thesis
    by (simp add: appendType_valid [OF assms] moduleNamed_putSourceFile baseName_entityModule)
qed

text \<open>The descriptor \<open>post\<close> appended twice to a new builder.\<close>

theorem appendType_twice_same_module_witness:
  "sys_type (sys postType) = ''ContentType''
   \<and> snd (appendType specHelpers (snd (appendType specHelpers newBuilder postType)) postType)
       = snd (appendType specHelpers newBuilder postType)
   \<and> moduleNamed (snd (appendType specHelpers (snd (appendType specHelpers newBuilder postType)) postType))
        ''Post'' = Some (entityModule specHelpers postType)
   \<and> moduleNamed (snd (appendType specHelpers newBuilder postType)) ''Post'' =
        Some (entityModule specHelpers postType)"
proof -
  have v: "sys_type (sys postType) = ''ContentType''" by (simp add: postType_def)
  have n: "moduleName specHelpers (sys_id (sys postType)) = ''Post''"
    by (simp add: postType_def specHelpers_names)
  from appendType_twice_same_module [OF v, of specHelpers newBuilder] v n show ?thesis by simp
qed

section \<open>A statement the merge has no case for (C8)\<close>

text \<open>
  Claim C8. If a file of the project other than the merge file has a statement that is
  neither an import, nor an interface, nor a type alias, \<^verbatim>\<open>mergeFile\<close> throws
  UnsupportedDeclarationKindError, naming the kind of such a statement among the walked
  ones, and returns no module, not a partly merged one either.
\<close>

theorem mergeFile_unsupported_kind_is_fatal:
  assumes "sourceFile \<in> set (getSourceFiles p)" and "baseName sourceFile \<noteq> mergeFileName"
    and "c \<in> set (statements sourceFile)" and "\<not> mergeable c"
  shows "\<exists>c'. \<not> mergeable c' \<and> c' \<in> set (mergeChildren p mergeFileName) \<and>
           fst (mergeFile env p mergeFileName) =
             Inl (UnsupportedDeclarationKindError (kindName c'))"
proof -
  from assms have "\<exists>c\<in>set (mergeChildren p mergeFileName). \<not> mergeable c"
    by (blast intro: mergeChildren_member)
  then show ?thesis by (rule mergeFile_throws)
qed

text \<open>
  The module of \<open>post\<close> holds the statement declaring \<open>POST_TYPE_ID\<close>, which is none of the
  three kinds.
\<close>

theorem mergeFile_unsupported_kind_is_fatal_witness:
  "entityModule specHelpers postType
      \<in> set (getSourceFiles (appendTypes specHelpers newBuilder [postType]))
   \<and> baseName (entityModule specHelpers postType) \<noteq> ''ContentTypes''
   \<and> VariableStatement (typeIdStatement specHelpers (sys_id (sys postType)))
      \<in> set (statements (entityModule specHelpers postType))
   \<and> \<not> mergeable (VariableStatement (typeIdStatement specHelpers (sys_id (sys postType))))
   \<and> (\<exists>c'. \<not> mergeable c'
        \<and> c' \<in> set (mergeChildren (appendTypes specHelpers newBuilder [postType]) ''ContentTypes'')
        \<and> fst (mergeFile specHelpers (appendTypes specHelpers newBuilder [postType]) ''ContentTypes'')
            = Inl (UnsupportedDeclarationKindError (kindName c')))"
proof -
  have v: "\<forall>d\<in>set [postType]. sys_type (sys d) = ''ContentType''" by (simp add: postType_def)
  have a: "entityModule specHelpers postType
      \<in> set (getSourceFiles (appendTypes specHelpers newBuilder [postType]))"
    using appendTypes_last [OF v, of specHelpers newBuilder] by (simp add: getSourceFiles_def)
  have b: "baseName (entityModule specHelpers postType) \<noteq> ''ContentTypes''"
    by (simp add: example_names)
  have c: "VariableStatement (typeIdStatement specHelpers (sys_id (sys postType)))
      \<in> set (statements (entityModule specHelpers postType))"
    by (rule entityModule_variable_statement)
  have d: "\<not> mergeable (VariableStatement (typeIdStatement specHelpers (sys_id (sys postType))))"
    by simp
  have e: "\<exists>c'. \<not> mergeable c'
        \<and> c' \<in> set (mergeChildren (appendTypes specHelpers newBuilder [postType]) ''ContentTypes'')
        \<and> fst (mergeFile specHelpers (appendTypes specHelpers newBuilder [postType]) ''ContentTypes'')
            = Inl (UnsupportedDeclarationKindError (kindName c'))"
    by (rule mergeFile_unsupported_kind_is_fatal [OF a b c d])
  show ?thesis by (intro conjI a b c d e)
qed

section \<open>Entities are independent (C9)\<close>

text \<open>
  Claim C9 says it of every two descriptors with distinct identifiers. It fails for two
  identifiers with one module name: \<^verbatim>\<open>appendType\<close> creates the file under \<open>moduleName\<close> of
  the identifier, overwriting. With the naming of the spec the descriptors \<open>post\<close> and
  \<open>Post\<close> share the module \<open>Post\<close>: appended alone, \<open>post\<close> has its module there; with
  \<open>Post\<close> appended after it, the module found there is the one of \<open>Post\<close>, another module.
\<close>

theorem appendType_same_module_name_overwrites:
  "sys_type (sys postType) = ''ContentType'' \<and> sys_type (sys capitalPostType) = ''ContentType''
   \<and> sys_id (sys postType) \<noteq> sys_id (sys capitalPostType)
   \<and> moduleNamed (snd (appendType specHelpers newBuilder postType))
        (moduleName specHelpers (sys_id (sys postType))) = Some (entityModule specHelpers postType)
   \<and> moduleNamed (snd (appendType specHelpers (snd (appendType specHelpers newBuilder postType))
        capitalPostType)) (moduleName specHelpers (sys_id (sys postType)))
      = Some (entityModule specHelpers capitalPostType)
   \<and> entityModule specHelpers capitalPostType \<noteq> entityModule specHelpers postType"
proof -
  have v1: "sys_type (sys postType) = ''ContentType''" by (simp add: postType_def)
  have v2: "sys_type (sys capitalPostType) = ''ContentType''" by (simp add: capitalPostType_def)
  have ne: "sys_id (sys postType) \<noteq> sys_id (sys capitalPostType)"
    by (simp add: postType_def capitalPostType_def)
  have n1: "moduleName specHelpers (sys_id (sys postType)) = ''Post''"
    by (simp add: postType_def specHelpers_names)
  have n2: "moduleName specHelpers (sys_id (sys capitalPostType)) = ''Post''"
    by (simp add: capitalPostType_def specHelpers_names)
  have alone: "moduleNamed (snd (appendType specHelpers newBuilder postType))
        (moduleName specHelpers (sys_id (sys postType))) = Some (entityModule specHelpers postType)"
    by (simp add: appendType_valid [OF v1] moduleNamed_putSourceFile baseName_entityModule)
  have both: "moduleNamed (snd (appendType specHelpers
        (snd (appendType specHelpers newBuilder postType)) capitalPostType))
        (moduleName specHelpers (sys_id (sys postType)))
      = Some (entityModule specHelpers capitalPostType)"
    by (simp add: appendType_valid [OF v1] appendType_valid [OF v2] moduleNamed_putSourceFile
        baseName_entityModule n1 n2)
  have differ: "entityModule specHelpers capitalPostType \<noteq> entityModule specHelpers postType"
  proof
    assume "entityModule specHelpers capitalPostType = entityModule specHelpers postType"
    then have "othersOf (statements (entityModule specHelpers capitalPostType)) =
        othersOf (statements (entityModule specHelpers postType))"
      by simp
    then have "map (propertyOf specHelpers) (ct_fields capitalPostType) =
        map (propertyOf specHelpers) (ct_fields postType)"
      by (simp add: others_entityModule)
    then show False
      by (simp add: capitalPostType_def postType_def propertyOf_def)
  qed
  show ?thesis by (intro conjI v1 v2 ne alone both differ)
qed

text \<open>
  Claim C9, amended. For two valid descriptors with distinct identifiers on which
  \<open>moduleName\<close> is injective, so that their module names differ as well, the module found
  under the first descriptor's module name is the module built from that descriptor
  alone, whether the other descriptor is not appended, appended before or appended
  after; and appending the first descriptor leaves what is registered under the other's
  module name as it was.
\<close>

theorem appendType_entities_independent:
  assumes "sys_type (sys d1) = ''ContentType''" and "sys_type (sys d2) = ''ContentType''"
    and "sys_id (sys d1) \<noteq> sys_id (sys d2)"
    and "inj_on (moduleName env) {sys_id (sys d1), sys_id (sys d2)}"
  shows "moduleNamed (snd (appendType env p d1)) (moduleName env (sys_id (sys d1))) =
           Some (entityModule env d1)
     \<and> moduleNamed (snd (appendType env (snd (appendType env p d2)) d1))
           (moduleName env (sys_id (sys d1))) = Some (entityModule env d1)
     \<and> moduleNamed (snd (appendType env (snd (appendType env p d1)) d2))
           (moduleName env (sys_id (sys d1))) = Some (entityModule env d1)
     \<and> moduleNamed (snd (appendType env p d1)) (moduleName env (sys_id (sys d2))) =
           moduleNamed p (moduleName env (sys_id (sys d2)))"
proof -
  from assms(3,4) have ne: "moduleName env (sys_id (sys d1)) \<noteq> moduleName env (sys_id (sys d2))"
    by (auto simp: inj_on_def)
  then have ne': "moduleName env (sys_id (sys d2)) \<noteq> moduleName env (sys_id (sys d1))"
    by (rule not_sym)
  show ?thesis
    by (simp add: appendType_valid [OF assms(1)] appendType_valid [OF assms(2)]
        moduleNamed_putSourceFile baseName_entityModule ne ne')
qed

text \<open>The descriptors \<open>post\<close> and \<open>author\<close> on a new builder.\<close>

theorem appendType_entities_independent_witness:
  "sys_type (sys postType) = ''ContentType'' \<and> sys_type (sys authorType) = ''ContentType''
   \<and> sys_id (sys postType) \<noteq> sys_id (sys authorType)
   \<and> inj_on (moduleName specHelpers) {sys_id (sys postType), sys_id (sys authorType)}
   \<and> moduleNamed (snd (appendType specHelpers newBuilder postType)) ''Post'' =
        Some (entityModule specHelpers postType)
   \<and> moduleNamed (snd (appendType specHelpers (snd (appendType specHelpers newBuilder authorType))
        postType)) ''Post'' = Some (entityModule specHelpers postType)
   \<and> moduleNamed (snd (appendType specHelpers (snd (appendType specHelpers newBuilder postType))
        authorType)) ''Post'' = Some (entityModule specHelpers postType)
   \<and> moduleNamed (snd (appendType specHelpers newBuilder postType)) ''Author'' =
        moduleNamed newBuilder ''Author''"
proof -
  have v1: "sys_type (sys postType) = ''ContentType''" by (simp add: postType_def)
  have v2: "sys_type (sys authorType) = ''ContentType''" by (simp add: authorType_def)
  have ne: "sys_id (sys postType) \<noteq> sys_id (sys authorType)"
    by (simp add: postType_def authorType_def)
  have n1: "moduleName specHelpers (sys_id (sys postType)) = ''Post''"
    by (simp add: postType_def specHelpers_names)
  have n2: "moduleName specHelpers (sys_id (sys authorType)) = ''Author''"
    by (simp add: authorType_def specHelpers_names)
  have inj: "inj_on (moduleName specHelpers) {sys_id (sys postType), sys_id (sys authorType)}"
    by (simp add: inj_on_def n1 n2)
  from appendType_entities_independent [OF v1 v2 ne inj, of newBuilder] v1 v2 ne inj n1 n2
  show ?thesis by simp
qed

section \<open>The merged text changes the project (C10)\<close>

text \<open>
  Claim C10. \<^verbatim>\<open>toString\<close> leaves the merge file \<open>ContentTypes\<close> registered in the project
  of the builder, whether the merge returned or threw. A \<^verbatim>\<open>write\<close> that follows treats it
  as one more module: the file is written under \<open>ContentTypes.ts\<close> in the target
  directory, it is among the modules the index is rebuilt from, and the \<open>CMSEntries\<close>
  union of the rebuilt index has the member \<open>moduleName\<close> gives for \<open>ContentTypes\<close>.
\<close>

theorem toString_registers_merged_module:
  "(\<exists>file. moduleNamed (snd (toString env p)) ''ContentTypes'' = Some file
       \<and> (resolve env dir ''ContentTypes.ts'', file)
           \<in> set (fst (write_files env (snd (toString env p)) dir)))
   \<and> ''ContentTypes'' \<in> set (filter (\<lambda>n. n \<noteq> ''index'')
         (map baseName (getSourceFiles (snd (toString env p)))))
   \<and> cmsEntriesType (snd (write_files env (snd (toString env p)) dir)) =
       Some (renderUnionType env (map (moduleName env)
         (filter (\<lambda>n. n \<noteq> ''index'') (map baseName (getSourceFiles (snd (toString env p)))))))"
proof -
  let ?q = "snd (toString env p)"
  from mergeFile_project [of "''ContentTypes''" env p]
  obtain m where m: "baseName m = ''ContentTypes''" "?q = putSourceFile env m p"
    by (auto simp: toString_def)
  have found: "moduleNamed ?q ''ContentTypes'' = Some m"
    by (simp add: m moduleNamed_putSourceFile)
  have "moduleNamed (addIndexFile env ?q) ''ContentTypes'' = Some m"
    by (simp add: moduleNamed_addIndexFile_other found)
  then have "m \<in> set (addIndexFile env ?q)" by (auto dest: moduleNamed_member)
  then have "(\<lambda>file. (resolve env dir (baseName file @ ''.ts''), file)) m
      \<in> set (map (\<lambda>file. (resolve env dir (baseName file @ ''.ts''), file)) (addIndexFile env ?q))"
    by (simp only: set_map) (rule imageI)
  then have written: "(resolve env dir ''ContentTypes.ts'', m)
      \<in> set (fst (write_files env ?q dir))"
    by (simp add: write_files_eq m(1))
  have "''ContentTypes'' \<in> set (map baseName ?q)"
    by (simp only: m(2) names_putSourceFile m(1)) simp
  then have entity: "''ContentTypes'' \<in> set (filter (\<lambda>n. n \<noteq> ''index'')
      (map baseName (getSourceFiles ?q)))"
    by (simp add: getSourceFiles_def)
  have union: "cmsEntriesType (snd (write_files env ?q dir)) =
       Some (renderUnionType env (map (moduleName env)
         (filter (\<lambda>n. n \<noteq> ''index'') (map baseName (getSourceFiles ?q)))))"
    by (simp add: write_files_eq cmsEntriesType_addIndexFile getSourceFiles_def)
  from found written have "\<exists>file. moduleNamed ?q ''ContentTypes'' = Some file
       \<and> (resolve env dir ''ContentTypes.ts'', file) \<in> set (fst (write_files env ?q dir))"
    by blast
  with entity union show ?thesis by (intro conjI)
qed

text \<open>
  A builder holding the module of \<open>post\<close>: after \<^verbatim>\<open>toString\<close>, \<^verbatim>\<open>write\<close> issues three
  files, and the union of the index is \<open>ContentTypes | Post\<close>.
\<close>

theorem toString_registers_merged_module_witness:
  "set (map fst (fst (write_files specHelpers
       (snd (toString specHelpers (appendTypes specHelpers newBuilder [postType]))) ''/out'')))
     = {''/out/Post.ts'', ''/out/ContentTypes.ts'', ''/out/index.ts''}
   \<and> cmsEntriesType (snd (write_files specHelpers
       (snd (toString specHelpers (appendTypes specHelpers newBuilder [postType]))) ''/out''))
     = Some ''ContentTypes | Post''"
proof -
  let ?p = "appendTypes specHelpers newBuilder [postType]"
  let ?q = "snd (toString specHelpers ?p)"
  have p: "?p = [entityModule specHelpers postType]"
    using example_post by (simp add: appendTypes_def)
  from mergeFile_project [of "''ContentTypes''" specHelpers ?p]
  obtain m where m: "baseName m = ''ContentTypes''" "?q = putSourceFile specHelpers m ?p"
    by (auto simp: toString_def)
  have q: "?q = [m, entityModule specHelpers postType]"
    by (simp only: m(2))
      (simp add: p putSourceFile_specHelpers example_names m(1) nameBefore_examples)
  have names: "map baseName (getSourceFiles ?q) = [''ContentTypes'', ''Post'']"
    by (simp only: q getSourceFiles_def) (simp add: example_names m(1))
  have idx: "addIndexFile specHelpers ?q =
      [m, indexModule specHelpers [''ContentTypes'', ''Post''], entityModule specHelpers postType]"
    by (simp only: q addIndexFile_eq)
      (simp add: example_names m(1) putSourceFile_specHelpers indexModule_props
        nameBefore_examples)
  have paths: "set (map fst (fst (write_files specHelpers ?q ''/out'')))
     = {''/out/Post.ts'', ''/out/ContentTypes.ts'', ''/out/index.ts''}"
    by (simp only: write_files_eq idx fst_conv)
      (simp add: example_names m(1) indexModule_props specHelpers_resolve insert_commute)
  have union: "renderUnionType specHelpers [''ContentTypes'', ''Post''] = ''ContentTypes | Post''"
    by (simp add: specHelpers_def)
  from toString_registers_merged_module [of specHelpers ?p "''/out''"]
  have "cmsEntriesType (snd (write_files specHelpers ?q ''/out'')) =
      Some (renderUnionType specHelpers (map (moduleName specHelpers)
         (filter (\<lambda>n. n \<noteq> ''index'') (map baseName (getSourceFiles ?q)))))"
    by blast
  then have "cmsEntriesType (snd (write_files specHelpers ?q ''/out'')) = Some ''ContentTypes | Post''"
    by (simp only: names) (simp add: specHelpers_names union)
  with paths show ?thesis by (intro conjI)
qed

end
